theory Spec2Isabelle
  imports Main "HOL-Library.AList"
begin

section \<open>JavaScript strings\<close>

text \<open>
  A JavaScript string is modelled as a \<open>string\<close>; its characters stand for ASCII code
  units. \<open>toLowerCase\<close> moves \<open>A\<close>..\<open>Z\<close> to \<open>a\<close>..\<open>z\<close> and leaves every
  other character alone.
\<close>

definition toLowerCase_char :: "char \<Rightarrow> char" where
  "toLowerCase_char c =
     (case map_of (zip ''ABCDEFGHIJKLMNOPQRSTUVWXYZ'' ''abcdefghijklmnopqrstuvwxyz'') c of
        Some l \<Rightarrow> l
      | None \<Rightarrow> c)"

definition toLowerCase :: "string \<Rightarrow> string" where
  "toLowerCase s = map toLowerCase_char s"

definition startsWith :: "string \<Rightarrow> string \<Rightarrow> bool" where
  \<comment> \<open>\<open>s.startsWith(t)\<close>\<close>
  "startsWith s t = (take (length t) s = t)"

fun indexOf :: "string \<Rightarrow> string \<Rightarrow> nat option" where
  \<comment> \<open>\<open>s.indexOf(t)\<close>, with \<open>None\<close> for \<open>-1\<close>\<close>
  "indexOf [] t = (if t = [] then Some 0 else None)"
| "indexOf (c # cs) t =
     (if startsWith (c # cs) t then Some 0 else map_option Suc (indexOf cs t))"

definition includes_str :: "string \<Rightarrow> string \<Rightarrow> bool" where
  \<comment> \<open>\<open>s.includes(t)\<close>\<close>
  "includes_str s t = (indexOf s t \<noteq> None)"


definition apostrophe :: char where
  "apostrophe = CHR 0x27"

definition backtick :: char where
  "backtick = CHR 0x60"

section \<open>The UUID pattern of the node wrappers\<close>

text \<open>
  The wrappers test the tenant id against
  \<^verbatim>\<open>/^[0-9a-f]{8}-[0-9a-f]{4}-[1-5][0-9a-f]{3}-[89ab][0-9a-f]{3}-[0-9a-f]{12}$/i\<close>.
  The pattern is a sequence of character classes, each repeated a fixed number of times,
  anchored at both ends; the \<open>i\<close> flag compares letters without their case.
\<close>

datatype atom = Cls string nat

fun match_atoms :: "atom list \<Rightarrow> string \<Rightarrow> bool" where
  "match_atoms [] s = (s = [])"
| "match_atoms (Cls cs 0 # as) s = match_atoms as s"
| "match_atoms (Cls cs (Suc n) # as) [] = False"
| "match_atoms (Cls cs (Suc n) # as) (c # s) =
     (toLowerCase_char c \<in> set cs \<and> match_atoms (Cls cs n # as) s)"

definition hex_class :: string where
  "hex_class = ''0123456789abcdef''"

definition uuidRegex :: "atom list" where
  "uuidRegex =
     [Cls hex_class 8, Cls ''-'' 1, Cls hex_class 4, Cls ''-'' 1,
      Cls ''12345'' 1, Cls hex_class 3, Cls ''-'' 1,
      Cls ''89ab'' 1, Cls hex_class 3, Cls ''-'' 1, Cls hex_class 12]"

definition uuidRegex_test :: "string \<Rightarrow> bool" where
  "uuidRegex_test tenantId = match_atoms uuidRegex tenantId"



section \<open>JavaScript values and objects\<close>

text \<open>
  The values the nodes handle are JSON values, \<open>undefined\<close> and the built-in functions
  an object inherits. The nodes never compute with a number: they test it for zero and
  print it, so a number is carried as the text JavaScript prints for it (\<open>0.1\<close>,
  \<open>2500\<close>, \<open>NaN\<close>). An object is the list of its own enumerable properties in the
  order \<open>Object.entries\<close> reports them; a built-in function is known by its name and
  has no such property.
\<close>

datatype jsval =
    JUndefined
  | JNull
  | JBool bool
  | JNum string
  | JStr string
  | JArr "jsval list"
  | JObj "(string \<times> jsval) list"
  | JFun string

fun truthy :: "jsval \<Rightarrow> bool" where
  "truthy JUndefined = False"
| "truthy JNull = False"
| "truthy (JBool b) = b"
| "truthy (JNum n) = (n \<noteq> ''0'' \<and> n \<noteq> ''NaN'')"
| "truthy (JStr s) = (s \<noteq> [])"
| "truthy (JArr xs) = True"
| "truthy (JObj fs) = True"
| "truthy (JFun f) = True"

fun join :: "string \<Rightarrow> string list \<Rightarrow> string" where
  "join sep [] = []"
| "join sep [x] = x"
| "join sep (x # y # r) = x @ sep @ join sep (y # r)"

fun to_string :: "jsval \<Rightarrow> string" where
  \<comment> \<open>the text of a value in a template literal or as the argument of \<open>RegExp.test\<close>\<close>
  "to_string JUndefined = ''undefined''"
| "to_string JNull = ''null''"
| "to_string (JBool b) = (if b then ''true'' else ''false'')"
| "to_string (JNum n) = n"
| "to_string (JStr s) = s"
| "to_string (JArr xs) =
     join '','' (map (\<lambda>x. if x = JUndefined \<or> x = JNull then [] else to_string x) xs)"
| "to_string (JObj fs) = ''[object Object]''"
| "to_string (JFun f) = ''function '' @ f @ ''() { [native code] }''"

definition js_or :: "jsval \<Rightarrow> jsval \<Rightarrow> jsval" where
  \<comment> \<open>\<open>a || b\<close>\<close>
  "js_or a b = (if truthy a then a else b)"

definition of_opt :: "string option \<Rightarrow> jsval" where
  \<comment> \<open>a node input that is either missing (\<open>undefined\<close>) or a string\<close>
  "of_opt x = (case x of None \<Rightarrow> JUndefined | Some s \<Rightarrow> JStr s)"

definition or_default :: "string option \<Rightarrow> string \<Rightarrow> string" where
  \<comment> \<open>\<open>x || d\<close> for a string input \<open>x\<close>: the empty string is falsy too\<close>
  "or_default x d = (case x of None \<Rightarrow> d | Some s \<Rightarrow> if s = [] then d else s)"

definition present :: "string option \<Rightarrow> bool" where
  \<comment> \<open>truthiness of a string input\<close>
  "present x = (case x of None \<Rightarrow> False | Some s \<Rightarrow> s \<noteq> [])"

subsection \<open>Property order\<close>

text \<open>
  A property whose name is an array index (the canonical decimal form of an integer
  below \<open>2^32 - 1\<close>) is listed before every other property, in ascending numeric order;
  the other properties follow in the order of their creation. Writing to an existing
  property keeps its place.
\<close>

definition digit_char :: "nat \<Rightarrow> char" where
  "digit_char d = ''0123456789'' ! d"

fun string_of_nat :: "nat \<Rightarrow> string" where
  "string_of_nat n =
     (if n < 10 then [digit_char n] else string_of_nat (n div 10) @ [digit_char (n mod 10)])"

declare string_of_nat.simps [simp del]

definition digit_value :: "char \<Rightarrow> int option" where
  "digit_value c = map_of (zip ''0123456789'' [0, 1, 2, 3, 4, 5, 6, 7, 8, 9]) c"

fun int_of_digits :: "int \<Rightarrow> string \<Rightarrow> int option" where
  "int_of_digits acc [] = Some acc"
| "int_of_digits acc (c # cs) =
     (case digit_value c of
        None \<Rightarrow> None
      | Some d \<Rightarrow> int_of_digits (10 * acc + d) cs)"

definition array_index :: "string \<Rightarrow> int option" where
  "array_index k =
     (if k = [] \<or> (hd k = CHR ''0'' \<and> k \<noteq> ''0'') then None
      else case int_of_digits 0 k of
             None \<Rightarrow> None
           | Some n \<Rightarrow> if n < 4294967295 then Some n else None)"

fun insert_index :: "int \<Rightarrow> string \<Rightarrow> 'v \<Rightarrow> (string \<times> 'v) list \<Rightarrow> (string \<times> 'v) list" where
  "insert_index n k v [] = [(k, v)]"
| "insert_index n k v (p # ps) =
     (case array_index (fst p) of
        Some m \<Rightarrow> if m \<le> n then p # insert_index n k v ps else (k, v) # p # ps
      | None \<Rightarrow> (k, v) # p # ps)"

definition put :: "string \<Rightarrow> 'v \<Rightarrow> (string \<times> 'v) list \<Rightarrow> (string \<times> 'v) list" where
  \<comment> \<open>define or overwrite the own property \<open>k\<close>\<close>
  "put k v fs =
     (if k \<in> fst ` set fs then AList.update k v fs
      else case array_index k of
             Some n \<Rightarrow> insert_index n k v fs
           | None \<Rightarrow> fs @ [(k, v)])"

definition put_all :: "(string \<times> 'v) list \<Rightarrow> (string \<times> 'v) list \<Rightarrow> (string \<times> 'v) list" where
  \<comment> \<open>the properties \<open>es\<close> written one after the other, in order\<close>
  "put_all es fs = fold (\<lambda>(k, v). put k v) es fs"

fun own_entries :: "jsval \<Rightarrow> (string \<times> jsval) list" where
  \<comment> \<open>own enumerable properties: what \<open>Object.entries\<close> and the spread \<open>{...x}\<close> see\<close>
  "own_entries (JObj fs) = fs"
| "own_entries (JArr xs) = zip (map string_of_nat [0 ..< length xs]) xs"
| "own_entries (JStr s) = zip (map string_of_nat [0 ..< length s]) (map (\<lambda>c. JStr [c]) s)"
| "own_entries v = []"

definition spread :: "jsval \<Rightarrow> (string \<times> jsval) list \<Rightarrow> (string \<times> jsval) list" where
  \<comment> \<open>\<open>{ ...fs, ...x }\<close>\<close>
  "spread x fs = put_all (own_entries x) fs"

definition get_prop :: "jsval \<Rightarrow> string \<Rightarrow> jsval" where
  \<comment> \<open>\<open>x.k\<close> for a value that is neither \<open>undefined\<close> nor \<open>null\<close>, and \<open>x?.k\<close> for any
      value. None of the names the sources read is an own property of a string or an
      array or inherited from a built-in prototype, so only objects answer.\<close>
  "get_prop x k =
     (case x of
        JObj fs \<Rightarrow> (case map_of fs k of Some v \<Rightarrow> v | None \<Rightarrow> JUndefined)
      | _ \<Rightarrow> JUndefined)"

subsection \<open>Errors\<close>

text \<open>
  A thrown error is a value: a call that throws returns \<open>Inl\<close> of the error. An error
  raised by the HTTP client for a reply outside 2xx carries that reply; every other
  error has none.
\<close>

datatype error_kind = Error | SyntaxError | TypeError | ReferenceError | AxiosError

datatype http_response = Response (resp_status: nat) (resp_data: jsval)

datatype js_error =
  JsError (err_kind: error_kind) (err_message: string) (err_response: "http_response option")

definition status_code :: "nat \<Rightarrow> jsval" where
  \<comment> \<open>an HTTP status as the number the client reports\<close>
  "status_code st = JNum (string_of_nat st)"

definition error_response_status :: "js_error \<Rightarrow> jsval" where
  \<comment> \<open>\<open>error.response?.status\<close>\<close>
  "error_response_status err =
     (case err_response err of
        None \<Rightarrow> JUndefined
      | Some r \<Rightarrow> status_code (resp_status r))"

definition nullish :: "jsval \<Rightarrow> bool" where
  "nullish v = (v = JUndefined \<or> v = JNull)"

definition read_prop :: "jsval \<Rightarrow> string \<Rightarrow> js_error + jsval" where
  \<comment> \<open>\<open>x.k\<close>: reading a property of \<open>undefined\<close> or \<open>null\<close> throws a TypeError\<close>
  "read_prop x k =
     (if x = JUndefined then
        Inl (JsError TypeError
              (''Cannot read properties of undefined (reading '' @ [apostrophe] @ k @ [apostrophe] @ '')'')
              None)
      else if x = JNull then
        Inl (JsError TypeError
              (''Cannot read properties of null (reading '' @ [apostrophe] @ k @ [apostrophe] @ '')'')
              None)
      else Inr (get_prop x k))"

section \<open>validation.js\<close>

datatype tenant_check = TenantError string | TenantOk string



definition validateTenantId :: "(string \<Rightarrow> bool) \<Rightarrow> jsval \<Rightarrow> tenant_check" where
  "validateTenantId uuidValidate tenantId =
     (if \<not> truthy tenantId then
        TenantError ''Tenant ID is required for multi-tenant isolation''
      else case tenantId of
             JStr s \<Rightarrow>
               if \<not> uuidValidate s then TenantError ''Tenant ID must be a valid UUID format''
               else TenantOk (toLowerCase s)
           | _ \<Rightarrow> TenantError ''Tenant ID must be a string'')"

definition is_space :: "char \<Rightarrow> bool" where
  "is_space c = (c \<in> {CHR '' '', CHR 0x09, CHR 0x0A, CHR 0x0B, CHR 0x0C, CHR 0x0D})"

definition blank :: "string \<Rightarrow> bool" where
  \<comment> \<open>\<open>s.trim() === ''\<close>\<close>
  "blank s = list_all is_space s"

datatype json_check = JsonError string | JsonOk jsval

text \<open>
  \<open>JSON.parse\<close> is a parameter: \<open>parse s\<close> is \<open>Inr\<close> of the value or \<open>Inl\<close> of the
  message of the SyntaxError it throws.
\<close>

definition validateJsonConfig ::
  "(string \<Rightarrow> string + jsval) \<Rightarrow> string option \<Rightarrow> string \<Rightarrow> bool \<Rightarrow> json_check" where
  "validateJsonConfig parse jsonString fieldName required =
     (if \<not> present jsonString \<or> blank (or_default jsonString [])
      then (if required then JsonError (fieldName @ '' is required'') else JsonOk (JObj []))
      else case parse (or_default jsonString []) of
             Inr parsed \<Rightarrow> JsonOk parsed
           | Inl message \<Rightarrow> JsonError (''Invalid JSON format in '' @ fieldName @ '': '' @ message))"

definition validateApiConfig ::
  "(string \<Rightarrow> bool) \<Rightarrow> string option \<Rightarrow> string option \<Rightarrow> string list" where
  \<comment> \<open>the list of errors; \<open>url_ok u\<close> says that \<open>new URL(u)\<close> does not throw\<close>
  "validateApiConfig url_ok apiUrl apiKey =
     (if \<not> present apiUrl then [''API URL is required'']
      else if \<not> url_ok (or_default apiUrl []) then [''Invalid API URL format'']
      else [])
     @ (if present apiKey \<and> length (or_default apiKey []) < 10
        then [''API key appears to be too short (minimum 10 characters)'']
        else [])"

record validation_results =
  vr_valid :: bool
  vr_errors :: "string list"
  vr_warnings :: "string list"
  vr_sanitizedInputs :: "(string \<times> jsval) list"

record node_inputs =
  in_tenantId :: jsval
  in_apiUrl :: "string option"
  in_apiKey :: "string option"
  in_taskConfig :: "string option"
  in_inputData :: "string option"
  in_question :: "string option"
  in_businessContext :: "string option"
  in_workflowConfig :: jsval
  in_agentCoordination :: jsval
  in_integrationConfig :: "string option"

definition fail_with :: "string \<Rightarrow> validation_results \<Rightarrow> validation_results" where
  \<comment> \<open>\<open>validationResults.valid = false; validationResults.errors.push(e)\<close>\<close>
  "fail_with e r = r\<lparr>vr_valid := False, vr_errors := vr_errors r @ [e]\<rparr>"

definition check_json :: "json_check \<Rightarrow> validation_results \<Rightarrow> validation_results" where
  "check_json c r = (case c of JsonError e \<Rightarrow> fail_with e r | JsonOk v \<Rightarrow> r)"

definition validateAutomatorInputs ::
  "(string \<Rightarrow> string + jsval) \<Rightarrow> node_inputs \<Rightarrow> validation_results \<Rightarrow> validation_results" where
  "validateAutomatorInputs parse inputs validationResults =
     check_json (validateJsonConfig parse (in_inputData inputs) ''Input Data'' False)
       (check_json (validateJsonConfig parse (in_taskConfig inputs) ''Task Configuration'' True)
          validationResults)"

definition validateMentorInputs ::
  "(string \<Rightarrow> string + jsval) \<Rightarrow> node_inputs \<Rightarrow> validation_results \<Rightarrow> validation_results" where
  "validateMentorInputs parse inputs validationResults =
     check_json (validateJsonConfig parse (in_businessContext inputs) ''Business Context'' False)
       (if \<not> present (in_question inputs) \<or> blank (or_default (in_question inputs) [])
        then fail_with ''Question or challenge is required for mentor guidance'' validationResults
        else validationResults)"

definition validateSupervisorInputs :: "node_inputs \<Rightarrow> validation_results \<Rightarrow> validation_results" where
  "validateSupervisorInputs inputs validationResults =
     (if \<not> truthy (in_workflowConfig inputs) \<and> \<not> truthy (in_agentCoordination inputs)
      then fail_with ''Either workflow configuration or agent coordination is required''
             validationResults
      else validationResults)"

definition validateAfricanIntegrationsInputs ::
  "(string \<Rightarrow> string + jsval) \<Rightarrow> node_inputs \<Rightarrow> validation_results \<Rightarrow> validation_results" where
  "validateAfricanIntegrationsInputs parse inputs validationResults =
     check_json
       (validateJsonConfig parse (in_integrationConfig inputs) ''Integration Configuration'' True)
       validationResults"

definition validateNodeInputs ::
  "(string \<Rightarrow> bool) \<Rightarrow> (string \<Rightarrow> bool) \<Rightarrow> (string \<Rightarrow> string + jsval) \<Rightarrow>
   node_inputs \<Rightarrow> string \<Rightarrow> validation_results" where
  "validateNodeInputs uuidValidate url_ok parse inputs nodeType =
     (let validationResults =
            \<lparr>vr_valid = True, vr_errors = [], vr_warnings = [], vr_sanitizedInputs = []\<rparr>;
          validationResults =
            (case validateTenantId uuidValidate (in_tenantId inputs) of
               TenantError e \<Rightarrow> fail_with e validationResults
             | TenantOk t \<Rightarrow>
                 validationResults\<lparr>vr_sanitizedInputs := [(''tenantId'', JStr t)]\<rparr>);
          apiErrors = validateApiConfig url_ok (in_apiUrl inputs) (in_apiKey inputs);
          validationResults =
            (if apiErrors \<noteq> []
             then validationResults\<lparr>vr_valid := False,
                                     vr_errors := vr_errors validationResults @ apiErrors\<rparr>
             else validationResults)
      in if nodeType = ''automator'' then validateAutomatorInputs parse inputs validationResults
         else if nodeType = ''mentor'' then validateMentorInputs parse inputs validationResults
         else if nodeType = ''supervisor'' then validateSupervisorInputs inputs validationResults
         else if nodeType = ''african_integrations''
           then validateAfricanIntegrationsInputs parse inputs validationResults
         else validationResults)"

subsection \<open>sanitizeInput\<close>

definition dangerous :: string where
  \<comment> \<open>the character class \<^verbatim>\<open>[<>\"'%;()&+]\<close>\<close>
  "dangerous = [CHR ''<'', CHR ''>'', CHR 0x22, apostrophe, CHR ''%'', CHR '';'',
                CHR ''('', CHR '')'', CHR ''&'', CHR ''+'']"

definition sanitize_string :: "string \<Rightarrow> string" where
  \<comment> \<open>\<open>input.replace(/[<>\"'%;()&+]/g, '')\<close>\<close>
  "sanitize_string s = filter (\<lambda>c. c \<notin> set dangerous) s"

text \<open>
  \<open>sanitizeInput\<close> builds its result with \<open>sanitized[key] = value\<close> on an object made by
  \<open>{}\<close>. For the name \<open>__proto__\<close> that assignment reaches the accessor the object
  inherits from \<open>Object.prototype\<close> and replaces the prototype of \<open>sanitized\<close>, so the
  values of this function carry their prototype chain: an object is the list of its own
  enumerable properties, the lists of own properties of its ancestors (the nearest
  first), and the end of the chain, which is \<open>Object.prototype\<close> or \<open>null\<close>. The values
  are \<open>undefined\<close>, the JSON values and the objects the function returns; an object that
  \<open>JSON.parse\<close> or an object literal made has no ancestor and ends in
  \<open>Object.prototype\<close>.
\<close>

datatype chain_end = ObjectPrototype | NullPrototype

datatype pval =
    PUndefined
  | PNull
  | PBool bool
  | PNum string
  | PStr string
  | PArr "pval list"
  | PObj "(string \<times> pval) list" "(string \<times> pval) list list" chain_end

type_synonym object = "(string \<times> pval) list \<times> (string \<times> pval) list list \<times> chain_end"

definition empty_object :: object where
  \<comment> \<open>\<open>{}\<close>\<close>
  "empty_object = ([], [], ObjectPrototype)"

definition object_value :: "object \<Rightarrow> pval" where
  "object_value ob = (case ob of (own, ancestors, root) \<Rightarrow> PObj own ancestors root)"

fun is_object :: "pval \<Rightarrow> bool" where
  \<comment> \<open>\<open>typeof v === 'object' && v !== null\<close>\<close>
  "is_object (PObj own ancestors root) = True"
| "is_object (PArr xs) = True"
| "is_object v = False"

definition reaches_setter :: "(string \<times> pval) list list \<Rightarrow> chain_end \<Rightarrow> bool" where
  \<comment> \<open>the search for \<open>__proto__\<close> along the prototype chain arrives at the accessor of
      \<open>Object.prototype\<close>: no ancestor has an own property of that name, and the chain
      does not end in \<open>null\<close>\<close>
  "reaches_setter ancestors root =
     (list_all (\<lambda>fs. ''__proto__'' \<notin> fst ` set fs) ancestors \<and> root = ObjectPrototype)"

definition set_prototype :: "pval \<Rightarrow> object \<Rightarrow> object" where
  \<comment> \<open>the setter of \<open>Object.prototype.__proto__\<close>, called on an extensible object: a value
      that is neither an object nor \<open>null\<close> is ignored. (\<open>sanitizeInput\<close> never passes an
      array, which it turns into an object first; an array would become the one ancestor,
      its elements the properties.)\<close>
  "set_prototype v ob =
     (case ob of (own, ancestors, root) \<Rightarrow>
        (case v of
           PNull \<Rightarrow> (own, [], NullPrototype)
         | PObj own' ancestors' root' \<Rightarrow> (own, own' # ancestors', root')
         | PArr xs \<Rightarrow> (own, [zip (map string_of_nat [0 ..< length xs]) xs], ObjectPrototype)
         | _ \<Rightarrow> (own, ancestors, root)))"

definition assign :: "string \<Rightarrow> pval \<Rightarrow> object \<Rightarrow> object" where
  \<comment> \<open>\<open>obj[k] = v\<close>. The name is looked up in the object and then along its prototype
      chain. The only accessor there is \<open>__proto__\<close> of \<open>Object.prototype\<close>; every other
      property found is a writable data property, and so is a name found nowhere: the
      value is written to the own property \<open>k\<close> of \<open>obj\<close>.\<close>
  "assign k v ob =
     (case ob of (own, ancestors, root) \<Rightarrow>
        if k = ''__proto__'' \<and> k \<notin> fst ` set own \<and> reaches_setter ancestors root
        then set_prototype v ob
        else (put k v own, ancestors, root))"

definition assign_all :: "(string \<times> pval) list \<Rightarrow> object \<Rightarrow> object" where
  "assign_all es ob = fold (\<lambda>(k, v). assign k v) es ob"

fun sanitizeInput :: "pval \<Rightarrow> pval" where
  "sanitizeInput (PStr s) = PStr (sanitize_string s)"
| "sanitizeInput (PObj own ancestors root) =
     object_value
       (assign_all (map (\<lambda>(k, v). (sanitize_string k, sanitizeInput v)) own) empty_object)"
| "sanitizeInput (PArr xs) =
     object_value
       (assign_all
          (zip (map (sanitize_string \<circ> string_of_nat) [0 ..< length xs]) (map sanitizeInput xs))
          empty_object)"
| "sanitizeInput v = v"

section \<open>tenant-isolation.js\<close>

record config =
  tenantHeader :: string
  requireTenantId :: bool
  defaultSchema :: string


record tenant =
  tenant_id :: "string option"
  tenant_schema :: string
  tenant_isolated :: bool



subsection \<open>addTenantFilter\<close>

text \<open>
  \<open>sql.replace(/where/i, r)\<close> rewrites the leftmost match only. The replacement text is
  a template: \<open>$$\<close> stands for a dollar sign, \<open>$&\<close> for the matched text, \<open>$`\<close> for the
  text before the match and \<open>$'\<close> for the text after it; the pattern has no groups, so
  every other use of \<open>$\<close> stands for itself.
\<close>

fun find_ci :: "string \<Rightarrow> string \<Rightarrow> (string \<times> string \<times> string) option" where
  \<comment> \<open>the leftmost occurrence of the lower-case word \<open>w\<close> in \<open>s\<close>, letters compared without
      case: the text before it, the matched text, the text after it\<close>
  "find_ci w [] = (if w = [] then Some ([], [], []) else None)"
| "find_ci w (c # cs) =
     (if toLowerCase (take (length w) (c # cs)) = w
      then Some ([], take (length w) (c # cs), drop (length w) (c # cs))
      else map_option (\<lambda>(pre, matched, post). (c # pre, matched, post)) (find_ci w cs))"

fun getSubstitution :: "string \<Rightarrow> string \<Rightarrow> string \<Rightarrow> string \<Rightarrow> string" where
  "getSubstitution matched pre post [] = []"
| "getSubstitution matched pre post [c] = [c]"
| "getSubstitution matched pre post (c # d # r) =
     (if c \<noteq> CHR ''$'' then c # getSubstitution matched pre post (d # r)
      else if d = CHR ''$'' then CHR ''$'' # getSubstitution matched pre post r
      else if d = CHR ''&'' then matched @ getSubstitution matched pre post r
      else if d = backtick then pre @ getSubstitution matched pre post r
      else if d = apostrophe then post @ getSubstitution matched pre post r
      else c # getSubstitution matched pre post (d # r))"

definition replace_ci :: "string \<Rightarrow> string \<Rightarrow> string \<Rightarrow> string" where
  \<comment> \<open>\<open>s.replace(/w/i, template)\<close>\<close>
  "replace_ci w template s =
     (case find_ci w s of
        None \<Rightarrow> s
      | Some (pre, matched, post) \<Rightarrow>
          pre @ getSubstitution matched pre post template @ post)"

definition addTenantFilter :: "string \<Rightarrow> string option \<Rightarrow> string" where
  "addTenantFilter sql tenantId =
     (if \<not> present tenantId then sql
      else
        let tid = or_default tenantId [];
            lowerSql = toLowerCase sql
        in if includes_str lowerSql ''where'' then
             replace_ci ''where''
               (''WHERE tenant_id = '' @ [apostrophe] @ tid @ [apostrophe] @ '' AND'') sql
           else if includes_str lowerSql ''select'' then
             (case indexOf lowerSql ''from'' of
                Some fromIndex \<Rightarrow>
                  take fromIndex sql @ drop fromIndex sql
                  @ '' WHERE tenant_id = '' @ [apostrophe] @ tid @ [apostrophe]
              | None \<Rightarrow> sql)
           else sql)"

section \<open>The world of a node\<close>

text \<open>
  A node reaches outside itself through \<open>JSON.parse\<close>, through the HTTP client
  (\<open>axios.post\<close>) and through the clock. The backend answers the \<open>n\<close>-th outbound
  call of an invocation with an HTTP status and a body, or not at all (connection
  refused, time-out, DNS failure), in which case the client reports a message. The
  client resolves for a status in 200..299 and rejects every other reply with an error
  that carries the reply. The clock is read once per invocation: \<open>env_now\<close> is the text
  of \<open>new Date().toISOString()\<close> and \<open>env_now_ms\<close> the text of \<open>Date.now()\<close>.
\<close>

record request =
  req_url :: string
  req_body :: jsval
  req_headers :: "(string \<times> jsval) list"
  req_timeout :: "int option"

datatype reply = Reply nat jsval | NoReply string

record env =
  env_parse :: "string \<Rightarrow> string + jsval"
  env_backend :: "nat \<Rightarrow> request \<Rightarrow> reply"
  env_now :: string
  env_now_ms :: string

definition JSON_parse :: "env \<Rightarrow> string \<Rightarrow> js_error + jsval" where
  "JSON_parse e s =
     (case env_parse e s of
        Inl message \<Rightarrow> Inl (JsError SyntaxError message None)
      | Inr v \<Rightarrow> Inr v)"

definition axios_post :: "env \<Rightarrow> nat \<Rightarrow> request \<Rightarrow> (js_error + http_response) \<times> nat" where
  \<comment> \<open>the outcome of the call and the number of outbound calls made so far\<close>
  "axios_post e calls req =
     (case env_backend e calls req of
        Reply st body \<Rightarrow>
          if 200 \<le> st \<and> st < 300 then Inr (Response st body)
          else Inl (JsError AxiosError
                      (''Request failed with status code '' @ string_of_nat st)
                      (Some (Response st body)))
      | NoReply message \<Rightarrow> Inl (JsError AxiosError message None),
      Suc calls)"

definition request_headers :: "jsval \<Rightarrow> string option \<Rightarrow> (string \<times> jsval) list" where
  \<comment> \<open>the headers every node prepares: content type, tenant, and the bearer credential
      when an API key was given\<close>
  "request_headers tenantId apiKey =
     [(''Content-Type'', JStr ''application/json''), (''X-Tenant-ID'', tenantId)]
     @ (if present apiKey
        then [(''Authorization'', JStr (''Bearer '' @ or_default apiKey []))]
        else [])"

definition throw :: "string \<Rightarrow> (js_error + jsval) \<times> nat" where
  \<comment> \<open>\<open>throw new Error(message)\<close> before any outbound call\<close>
  "throw message = (Inl (JsError Error message None), 0)"

section \<open>SMEFlowMentor.js\<close>

record mentor_inputs =
  mi_guidanceType :: "string option"
  mi_industrySector :: "string option"
  mi_tenantId :: "string option"
  mi_businessContext :: "string option"
  mi_question :: "string option"
  mi_marketConfig :: "string option"
  mi_apiUrl :: "string option"
  mi_apiKey :: "string option"

definition mentor_defaultMarketConfig :: jsval where
  "mentor_defaultMarketConfig =
     JObj [(''region'', JStr ''africa-west''),
           (''currency'', JStr ''NGN''),
           (''timezone'', JStr ''Africa/Lagos''),
           (''languages'', JArr [JStr ''en'', JStr ''ha'', JStr ''yo'', JStr ''ig'']),
           (''market_focus'', JStr ''urban''),
           (''business_environment'',
              JObj [(''infrastructure'', JStr ''developing''),
                    (''digital_adoption'', JStr ''growing''),
                    (''regulatory_complexity'', JStr ''moderate'')]),
           (''cultural_context'',
              JObj [(''business_relationships'', JStr ''relationship_focused''),
                    (''decision_making'', JStr ''consensus_driven''),
                    (''communication_style'', JStr ''respectful'')])]"

definition mentor_try ::
  "env \<Rightarrow> jsval \<Rightarrow> string \<Rightarrow> string \<Rightarrow> string \<Rightarrow> string option \<Rightarrow> string \<Rightarrow>
   string option \<Rightarrow> string \<Rightarrow> string option \<Rightarrow> (js_error + jsval) \<times> nat" where
  \<comment> \<open>the body of the \<open>try\<close> block: \<open>Inl\<close> is the error it throws\<close>
  "mentor_try e instance_id guidanceType industrySector tenantId businessContext question
     marketConfig apiUrl apiKey =
     (case JSON_parse e (or_default businessContext ''{}'') of
        Inl err \<Rightarrow> (Inl err, 0)
      | Inr context \<Rightarrow>
     (case JSON_parse e (or_default marketConfig ''{}'') of
        Inl err \<Rightarrow> (Inl err, 0)
      | Inr africanMarketConfig \<Rightarrow>
          let finalMarketConfig =
                JObj (spread africanMarketConfig (spread mentor_defaultMarketConfig []));
              headers = request_headers (JStr tenantId) apiKey;
              mentorRequest =
                JObj [(''guidance_type'', JStr guidanceType),
                      (''industry_sector'', JStr industrySector),
                      (''tenant_id'', JStr tenantId),
                      (''business_context'',
                         JObj (put_all [(''source'', JStr ''flowise''),
                                        (''workflow_id'', instance_id),
                                        (''created_at'', JStr (env_now e))]
                                 (spread finalMarketConfig (spread context [])))),
                      (''question'', JStr question),
                      (''preferences'',
                         JObj [(''response_style'', JStr ''practical''),
                               (''detail_level'', JStr ''comprehensive''),
                               (''include_examples'', JBool True),
                               (''african_context'', JBool True)])];
              (outcome, calls) =
                axios_post e 0
                  \<lparr>req_url = apiUrl @ ''/api/v1/mentor/guidance'', req_body = mentorRequest,
                   req_headers = headers, req_timeout = Some 120000\<rparr>
          in case outcome of
               Inl err \<Rightarrow> (Inl err, calls)
             | Inr response \<Rightarrow>
                 let data = resp_data response
                 in case read_prop data ''mentor_id'' of
                      Inl err \<Rightarrow> (Inl err, calls)
                    | Inr mentor_id \<Rightarrow>
                        (Inr (JObj [(''success'', JBool True),
                                    (''guidance_type'', JStr guidanceType),
                                    (''industry_sector'', JStr industrySector),
                                    (''mentor_id'', mentor_id),
                                    (''session_id'', get_prop data ''session_id''),
                                    (''guidance'', get_prop data ''guidance''),
                                    (''recommendations'', get_prop data ''recommendations''),
                                    (''action_items'', get_prop data ''action_items''),
                                    (''resources'', get_prop data ''resources''),
                                    (''follow_up_questions'', get_prop data ''follow_up_questions''),
                                    (''confidence_score'', get_prop data ''confidence_score''),
                                    (''cost_usd'', get_prop data ''cost_usd''),
                                    (''tokens_used'', get_prop data ''tokens_used''),
                                    (''execution_time'', get_prop data ''execution_time''),
                                    (''tenant_id'', JStr tenantId),
                                    (''market_config'', finalMarketConfig),
                                    (''timestamp'', JStr (env_now e))]),
                         calls)))"

definition mentor_catch :: "env \<Rightarrow> string \<Rightarrow> string \<Rightarrow> string \<Rightarrow> js_error \<Rightarrow> jsval" where
  "mentor_catch e guidanceType industrySector tenantId error =
     JObj [(''success'', JBool False),
           (''guidance_type'', JStr guidanceType),
           (''industry_sector'', JStr industrySector),
           (''error'', JStr (err_message error)),
           (''error_code'', js_or (error_response_status error) (JStr ''UNKNOWN'')),
           (''tenant_id'', JStr tenantId),
           (''timestamp'', JStr (env_now e))]"

definition mentor_init :: "env \<Rightarrow> jsval \<Rightarrow> mentor_inputs \<Rightarrow> (js_error + jsval) \<times> nat" where
  \<comment> \<open>\<open>init(nodeData, _, options)\<close>, with \<open>nodeData.inputs\<close> and \<open>nodeData.instance?.id\<close>:
      what the call returns (\<open>Inr\<close>) or throws (\<open>Inl\<close>), and the number of outbound calls\<close>
  "mentor_init e instance_id inputs =
     (let guidanceType = or_default (mi_guidanceType inputs) ''business_strategy'';
          industrySector = or_default (mi_industrySector inputs) ''retail'';
          tenantId = or_default (mi_tenantId inputs) [];
          question = or_default (mi_question inputs) [];
          apiUrl = or_default (mi_apiUrl inputs) ''http://smeflow:8000''
      in if \<not> present (mi_tenantId inputs) then
           throw ''Tenant ID is required for multi-tenant isolation''
         else if \<not> present (mi_question inputs) then
           throw ''Question/Challenge is required for mentor guidance''
         else if \<not> uuidRegex_test tenantId then
           throw ''Tenant ID must be a valid UUID format''
         else
           case mentor_try e instance_id guidanceType industrySector tenantId
                  (mi_businessContext inputs) question (mi_marketConfig inputs) apiUrl
                  (mi_apiKey inputs) of
             (Inl error, calls) \<Rightarrow>
               (Inr (mentor_catch e guidanceType industrySector tenantId error), calls)
           | (Inr result, calls) \<Rightarrow> (Inr result, calls))"

section \<open>SMEFlowAutomator.js\<close>

record automator_inputs =
  au_tenantManager :: jsval
  au_taskType :: "string option"
  au_tenantId :: "string option"
  au_taskConfig :: "string option"
  au_inputData :: "string option"
  au_marketConfig :: "string option"
  au_apiUrl :: "string option"
  au_apiKey :: "string option"

definition connected_tenantId :: "jsval \<Rightarrow> jsval \<Rightarrow> string option \<Rightarrow> jsval" where
  \<comment> \<open>the tenant id of a node that may be fed by a Tenant Manager: the connected
      manager's \<open>tenant_id\<close>, else the \<open>tenant_id\<close> of \<open>input\<close>, else the node's own field\<close>
  "connected_tenantId tenantManager input tenantId =
     (if truthy tenantManager \<and> truthy (get_prop tenantManager ''tenant_id'')
      then get_prop tenantManager ''tenant_id''
      else if truthy input \<and> truthy (get_prop input ''tenant_id'')
      then get_prop input ''tenant_id''
      else of_opt tenantId)"

definition automator_defaultMarketConfig :: jsval where
  "automator_defaultMarketConfig =
     JObj [(''region'', JStr ''africa-west''),
           (''currency'', JStr ''NGN''),
           (''timezone'', JStr ''Africa/Lagos''),
           (''languages'', JArr [JStr ''en'', JStr ''ha'', JStr ''yo'', JStr ''ig'']),
           (''phone_format'', JStr ''+234''),
           (''business_hours'',
              JObj [(''start'', JStr ''08:00''),
                    (''end'', JStr ''18:00''),
                    (''timezone'', JStr ''Africa/Lagos'')])]"

definition automator_finalMarketConfig :: "jsval \<Rightarrow> jsval" where
  \<comment> \<open>\<open>{ ...defaultMarketConfig, ...africanMarketConfig }\<close>\<close>
  "automator_finalMarketConfig africanMarketConfig =
     JObj (spread africanMarketConfig (spread automator_defaultMarketConfig []))"

definition automator_try ::
  "env \<Rightarrow> jsval \<Rightarrow> string \<Rightarrow> jsval \<Rightarrow> string option \<Rightarrow> string option \<Rightarrow> string option \<Rightarrow>
   string option \<Rightarrow> (js_error + jsval) \<times> nat" where
  \<comment> \<open>the body of the \<open>try\<close> block; the request is prepared and never sent\<close>
  "automator_try e instance_id taskType tenantId taskConfig inputData marketConfig apiKey =
     (case JSON_parse e (or_default taskConfig ''{}'') of
        Inl err \<Rightarrow> (Inl err, 0)
      | Inr config \<Rightarrow>
     (case JSON_parse e (or_default inputData ''{}'') of
        Inl err \<Rightarrow> (Inl err, 0)
      | Inr data \<Rightarrow>
     (case JSON_parse e (or_default marketConfig ''{}'') of
        Inl err \<Rightarrow> (Inl err, 0)
      | Inr africanMarketConfig \<Rightarrow>
          let finalMarketConfig = automator_finalMarketConfig africanMarketConfig;
              headers = request_headers tenantId apiKey;
              automationRequest =
                JObj [(''task_type'', JStr taskType),
                      (''tenant_id'', tenantId),
                      (''config'',
                         JObj (put_all [(''source'', JStr ''flowise''),
                                        (''workflow_id'', instance_id),
                                        (''created_at'', JStr (env_now e))]
                                 (spread finalMarketConfig (spread config [])))),
                      (''input_data'', data),
                      (''execution_options'',
                         JObj [(''async'', JBool False),
                               (''timeout'', JNum ''120''),
                               (''retry_on_failure'', JBool True),
                               (''max_retries'', JNum ''3'')])]
          in (Inr (JObj [(''success'', JBool True),
                         (''task_id'', JStr (''task_'' @ env_now_ms e)),
                         (''execution_id'', JStr (''exec_'' @ env_now_ms e)),
                         (''status'', JStr ''completed''),
                         (''result'',
                            JObj [(''message'',
                                     JStr (''Successfully executed '' @ taskType @ '' task'')),
                                  (''processed_data'', data),
                                  (''tenant_context'', tenantId)]),
                         (''cost_usd'', JNum ''0.05''),
                         (''execution_time'', JNum ''1.2''),
                         (''tenant_id'', tenantId),
                         (''task_type'', JStr taskType),
                         (''market_config'', finalMarketConfig)]),
              0))))"

definition automator_catch :: "env \<Rightarrow> string \<Rightarrow> jsval \<Rightarrow> js_error \<Rightarrow> jsval" where
  "automator_catch e taskType tenantId error =
     JObj [(''success'', JBool False),
           (''error'', JStr (err_message error)),
           (''tenant_id'', tenantId),
           (''task_type'', JStr taskType),
           (''timestamp'', JStr (env_now e))]"

definition automator_init ::
  "env \<Rightarrow> jsval \<Rightarrow> automator_inputs \<Rightarrow> jsval \<Rightarrow> (js_error + jsval) \<times> nat" where
  \<comment> \<open>\<open>init(nodeData, input, options)\<close>\<close>
  "automator_init e instance_id inputs input =
     (let tenantManager = js_or (au_tenantManager inputs) input;
          taskType = or_default (au_taskType inputs) ''api_integration'';
          tenantId = connected_tenantId tenantManager input (au_tenantId inputs)
      in if \<not> truthy tenantId then
           throw ''Tenant ID is required for multi-tenant isolation''
         else
           case automator_try e instance_id taskType tenantId (au_taskConfig inputs)
                  (au_inputData inputs) (au_marketConfig inputs) (au_apiKey inputs) of
             (Inl error, calls) \<Rightarrow> (Inr (automator_catch e taskType tenantId error), calls)
           | (Inr result, calls) \<Rightarrow> (Inr result, calls))"

section \<open>SMEFlowTenantManager.js\<close>

record tenant_manager_inputs =
  tm_operation :: "string option"
  tm_tenantId :: "string option"
  tm_tenantName :: "string option"
  tm_tenantConfig :: "string option"
  tm_marketSettings :: "string option"
  tm_apiUrl :: "string option"
  tm_apiKey :: "string option"

text \<open>
  The second statement of the \<open>try\<close> block reads the identifier \<open>marketConfig\<close>. The
  function binds \<open>marketSettings\<close>; neither the function, the module nor the runtime
  declares \<open>marketConfig\<close>, so the read throws a ReferenceError and the statements after
  it (the merge and the \<open>success: true\<close> result) are never reached.
\<close>

definition tenant_manager_try :: "env \<Rightarrow> string option \<Rightarrow> (js_error + jsval) \<times> nat" where
  "tenant_manager_try e tenantConfig =
     (case JSON_parse e (or_default tenantConfig ''{}'') of
        Inl err \<Rightarrow> (Inl err, 0)
      | Inr config \<Rightarrow> (Inl (JsError ReferenceError ''marketConfig is not defined'' None), 0))"

definition tenant_manager_catch :: "env \<Rightarrow> string \<Rightarrow> string \<Rightarrow> js_error \<Rightarrow> jsval" where
  "tenant_manager_catch e operation tenantId error =
     JObj [(''success'', JBool False),
           (''operation'', JStr operation),
           (''tenant_id'', JStr tenantId),
           (''error'', JStr (err_message error)),
           (''error_code'', js_or (error_response_status error) (JStr ''UNKNOWN'')),
           (''timestamp'', JStr (env_now e))]"

definition tenant_manager_init ::
  "env \<Rightarrow> tenant_manager_inputs \<Rightarrow> (js_error + jsval) \<times> nat" where
  "tenant_manager_init e inputs =
     (let operation = or_default (tm_operation inputs) ''validate'';
          tenantId = or_default (tm_tenantId inputs) []
      in if \<not> present (tm_tenantId inputs) then
           throw ''Tenant ID is required for all tenant operations''
         else if \<not> uuidRegex_test tenantId then
           throw ''Tenant ID must be a valid UUID format''
         else
           case tenant_manager_try e (tm_tenantConfig inputs) of
             (Inl error, calls) \<Rightarrow> (Inr (tenant_manager_catch e operation tenantId error), calls)
           | (Inr result, calls) \<Rightarrow> (Inr result, calls))"

section \<open>SMEFlowWorkflowExecutor.js\<close>

record executor_inputs =
  ex_tenantManager :: jsval
  ex_workflowType :: "string option"
  ex_tenantId :: "string option"
  ex_inputData :: "string option"
  ex_workflowContext :: "string option"
  ex_marketConfig :: "string option"
  ex_businessRules :: "string option"
  ex_apiUrl :: "string option"
  ex_apiKey :: "string option"
  ex_useCache :: jsval

definition toUpperCase_char :: "char \<Rightarrow> char" where
  "toUpperCase_char c =
     (case map_of (zip ''abcdefghijklmnopqrstuvwxyz'' ''ABCDEFGHIJKLMNOPQRSTUVWXYZ'') c of
        Some u \<Rightarrow> u
      | None \<Rightarrow> c)"

definition toUpperCase :: "string \<Rightarrow> string" where
  "toUpperCase s = map toUpperCase_char s"

fun replace_first_char :: "char \<Rightarrow> char \<Rightarrow> string \<Rightarrow> string" where
  \<comment> \<open>\<open>s.replace('c', 'd')\<close>: the first occurrence only\<close>
  "replace_first_char c d [] = []"
| "replace_first_char c d (x # xs) = (if x = c then d # xs else x # replace_first_char c d xs)"

text \<open>
  Reading \<open>table[key]\<close> from an object literal falls back to what the object inherits
  from \<open>Object.prototype\<close>: eleven built-in functions and, under \<open>__proto__\<close>, the
  prototype itself, an object without own enumerable properties.
\<close>

definition object_prototype_functions :: "string list" where
  "object_prototype_functions =
     [''__defineGetter__'', ''__defineSetter__'', ''hasOwnProperty'', ''__lookupGetter__'',
      ''__lookupSetter__'', ''isPrototypeOf'', ''propertyIsEnumerable'', ''toString'',
      ''valueOf'', ''toLocaleString'']"

definition table_get :: "(string \<times> jsval) list \<Rightarrow> string \<Rightarrow> jsval" where
  "table_get table key =
     (case map_of table key of
        Some v \<Rightarrow> v
      | None \<Rightarrow>
          if key = ''__proto__'' then JObj []
          else if key = ''constructor'' then JFun ''Object''
          else if key \<in> set object_prototype_functions then JFun key
          else JUndefined)"

definition endpointMap :: "(string \<times> jsval) list" where
  "endpointMap =
     [(''consulting'', JStr ''/langgraph/templates/consulting''),
      (''salon_spa'', JStr ''/langgraph/templates/salon-spa''),
      (''healthcare'', JStr ''/langgraph/templates/healthcare''),
      (''manufacturing'', JStr ''/langgraph/templates/manufacturing''),
      (''marketing_campaigns'', JStr ''/langgraph/templates/marketing-campaigns''),
      (''product_recommender'', JStr ''/langgraph/templates/product-recommender''),
      (''compliance_workflows'', JStr ''/langgraph/templates/compliance-workflows''),
      (''erp_integration'', JStr ''/langgraph/templates/erp-integration'')]"

definition executor_defaultMarketConfig :: jsval where
  "executor_defaultMarketConfig =
     JObj [(''region'', JStr ''africa-west''),
           (''currency'', JStr ''NGN''),
           (''timezone'', JStr ''Africa/Lagos''),
           (''languages'', JArr [JStr ''en'', JStr ''ha'', JStr ''yo'', JStr ''ig'']),
           (''phone_format'', JStr ''+234''),
           (''business_hours'',
              JObj [(''start'', JStr ''08:00''),
                    (''end'', JStr ''18:00''),
                    (''timezone'', JStr ''Africa/Lagos'')])]"

definition executor_fallback ::
  "env \<Rightarrow> string \<Rightarrow> jsval \<Rightarrow> jsval \<Rightarrow> jsval \<Rightarrow> jsval \<Rightarrow> js_error \<Rightarrow> jsval" where
  \<comment> \<open>the inner \<open>catch (apiError)\<close>\<close>
  "executor_fallback e workflowType tenantId parsedInputData finalMarketConfig
     parsedBusinessRules apiError =
     JObj [(''success'', JBool True),
           (''workflow_id'', JStr (''workflow_'' @ env_now_ms e)),
           (''execution_id'', JStr (''exec_'' @ env_now_ms e)),
           (''status'', JStr ''completed''),
           (''workflow_type'', JStr workflowType),
           (''result'',
              JObj [(''name'',
                       JStr (toUpperCase (replace_first_char CHR ''_'' CHR '' '' workflowType)
                             @ '' Workflow'')),
                    (''description'',
                       JStr (''Simulated '' @ workflowType @ '' workflow execution'')),
                    (''template_type'', JStr (''industry_'' @ workflowType)),
                    (''output_data'',
                       JObj (put_all
                               [(''workflow_result'',
                                   JStr (''Successfully processed '' @ workflowType @ '' workflow'')),
                                (''processed_at'', JStr (env_now e)),
                                (''fallback_mode'', JBool True)]
                               (spread parsedInputData []))),
                    (''execution_summary'',
                       JObj [(''started_at'', JStr (env_now e)),
                             (''completed_at'', JStr (env_now e)),
                             (''duration_ms'', JNum ''2500''),
                             (''total_cost_usd'', JNum ''0.1''),
                             (''tokens_used'', JNum ''150'')])]),
           (''tenant_id'', tenantId),
           (''market_config'', finalMarketConfig),
           (''business_rules'', parsedBusinessRules),
           (''fallback_mode'', JBool True),
           (''fallback_reason'', JStr (err_message apiError)),
           (''cache_used'', JBool False)]"

definition executor_result ::
  "env \<Rightarrow> string \<Rightarrow> jsval \<Rightarrow> jsval \<Rightarrow> jsval \<Rightarrow> jsval \<Rightarrow> bool \<Rightarrow> jsval \<Rightarrow> jsval" where
  \<comment> \<open>the result built from \<open>response.data\<close>, which is neither \<open>undefined\<close> nor \<open>null\<close>\<close>
  "executor_result e workflowType tenantId parsedInputData finalMarketConfig
     parsedBusinessRules useCache data =
     JObj [(''success'', JBool (get_prop data ''success'' \<noteq> JBool False)),
           (''workflow_id'', js_or (get_prop data ''id'') (get_prop data ''workflow_id'')),
           (''execution_id'', get_prop data ''execution_id''),
           (''status'', js_or (get_prop data ''status'') (JStr ''completed'')),
           (''workflow_type'', JStr workflowType),
           (''result'',
              JObj [(''name'', get_prop data ''name''),
                    (''description'', get_prop data ''description''),
                    (''template_type'', get_prop data ''template_type''),
                    (''output_data'', js_or (get_prop data ''output_data'') parsedInputData),
                    (''execution_summary'',
                       JObj [(''started_at'',
                                js_or (get_prop data ''created_at'') (JStr (env_now e))),
                             (''completed_at'', get_prop data ''updated_at''),
                             (''duration_ms'', get_prop data ''duration_ms''),
                             (''total_cost_usd'',
                                js_or (get_prop data ''total_cost_usd'') (JNum ''0.1'')),
                             (''tokens_used'',
                                js_or (get_prop data ''tokens_used'') (JNum ''0''))])]),
           (''tenant_id'', tenantId),
           (''market_config'', finalMarketConfig),
           (''business_rules'', parsedBusinessRules),
           (''api_response'', data),
           (''cache_used'', JBool useCache)]"

definition executor_try ::
  "env \<Rightarrow> jsval \<Rightarrow> string \<Rightarrow> jsval \<Rightarrow> executor_inputs \<Rightarrow> string \<Rightarrow> bool \<Rightarrow>
   (js_error + jsval) \<times> nat" where
  \<comment> \<open>the body of the outer \<open>try\<close> block\<close>
  "executor_try e instance_id workflowType tenantId inputs apiUrl useCache =
     (case JSON_parse e (or_default (ex_inputData inputs) ''{}'') of
        Inl err \<Rightarrow> (Inl err, 0)
      | Inr parsedInputData \<Rightarrow>
     (case JSON_parse e (or_default (ex_workflowContext inputs) ''{}'') of
        Inl err \<Rightarrow> (Inl err, 0)
      | Inr parsedContext \<Rightarrow>
     (case JSON_parse e (or_default (ex_marketConfig inputs) ''{}'') of
        Inl err \<Rightarrow> (Inl err, 0)
      | Inr parsedMarketConfig \<Rightarrow>
     (case JSON_parse e (or_default (ex_businessRules inputs) ''{}'') of
        Inl err \<Rightarrow> (Inl err, 0)
      | Inr parsedBusinessRules \<Rightarrow>
          let finalMarketConfig =
                JObj (spread parsedMarketConfig (spread executor_defaultMarketConfig []));
              headers = request_headers tenantId (ex_apiKey inputs);
              workflowRequest =
                JObj [(''workflow_type'', JStr workflowType),
                      (''tenant_id'', tenantId),
                      (''input_data'', parsedInputData),
                      (''context'',
                         JObj (put_all [(''source'', JStr ''flowise''),
                                        (''workflow_id'', instance_id),
                                        (''market_config'', finalMarketConfig),
                                        (''business_rules'', parsedBusinessRules),
                                        (''created_at'', JStr (env_now e))]
                                 (spread parsedContext []))),
                      (''use_cache'', JBool useCache),
                      (''execution_options'',
                         JObj [(''async'', JBool False),
                               (''timeout'', JNum ''300''),
                               (''retry_on_failure'', JBool True),
                               (''max_retries'', JNum ''2''),
                               (''african_market_optimizations'', JBool True)])];
              apiEndpoint =
                (if workflowType = ''custom'' then apiUrl @ ''/flowise/execute''
                 else apiUrl
                      @ to_string (js_or (table_get endpointMap workflowType)
                                     (JStr ''/langgraph/workflows'')));
              (outcome, calls) =
                axios_post e 0
                  \<lparr>req_url = apiEndpoint, req_body = workflowRequest,
                   req_headers = headers, req_timeout = None\<rparr>
          in case outcome of
               Inl apiError \<Rightarrow>
                 (Inr (executor_fallback e workflowType tenantId parsedInputData
                         finalMarketConfig parsedBusinessRules apiError),
                  calls)
             | Inr response \<Rightarrow>
                 (case read_prop (resp_data response) ''status'' of
                    Inl apiError \<Rightarrow>
                      (Inr (executor_fallback e workflowType tenantId parsedInputData
                              finalMarketConfig parsedBusinessRules apiError),
                       calls)
                  | Inr status \<Rightarrow>
                      (Inr (executor_result e workflowType tenantId parsedInputData
                              finalMarketConfig parsedBusinessRules useCache
                              (resp_data response)),
                       calls))))))"

text \<open>
  The outer \<open>catch\<close> block builds its result from \<open>apiEndpoint\<close>, a variable that
  \<open>let\<close> declares inside the \<open>try\<close> block and that is not in scope in the \<open>catch\<close>
  block: building the result throws a ReferenceError, which leaves \<open>init\<close>.
\<close>

definition executor_catch :: "js_error \<Rightarrow> js_error + jsval" where
  "executor_catch error = Inl (JsError ReferenceError ''apiEndpoint is not defined'' None)"

definition executor_init ::
  "env \<Rightarrow> jsval \<Rightarrow> executor_inputs \<Rightarrow> jsval \<Rightarrow> (js_error + jsval) \<times> nat" where
  \<comment> \<open>\<open>init(nodeData, input, options)\<close>\<close>
  "executor_init e instance_id inputs input =
     (let tenantManager = js_or (ex_tenantManager inputs) input;
          workflowType = or_default (ex_workflowType inputs) ''consulting'';
          apiUrl = or_default (ex_apiUrl inputs) ''http://smeflow:8000'';
          useCache = (ex_useCache inputs \<noteq> JBool False);
          tenantId = connected_tenantId tenantManager input (ex_tenantId inputs)
      in if \<not> truthy tenantId then
           throw ''Tenant ID is required for multi-tenant workflow execution''
         else
           case executor_try e instance_id workflowType tenantId inputs apiUrl useCache of
             (Inl error, calls) \<Rightarrow> (executor_catch error, calls)
           | (Inr result, calls) \<Rightarrow> (Inr result, calls))"

section \<open>SMEFlowAfricanIntegrations.js\<close>

record integrations_inputs =
  ai_smeflowAgent :: jsval
  ai_tenantManager :: jsval
  ai_integrationType :: "string option"
  ai_country :: "string option"
  ai_tenantId :: "string option"
  ai_integrationConfig :: "string option"
  ai_requestData :: "string option"
  ai_marketLocalization :: "string option"
  ai_complianceSettings :: "string option"
  ai_apiUrl :: "string option"
  ai_apiKey :: "string option"

definition nigeria_defaults :: jsval where
  "nigeria_defaults =
     JObj [(''currency'', JStr ''NGN''),
           (''language'', JStr ''en''),
           (''timezone'', JStr ''Africa/Lagos''),
           (''phone_format'', JStr ''+234''),
           (''payment_methods'',
              JArr [JStr ''paystack'', JStr ''flutterwave'', JStr ''bank_transfer''])]"

definition countryDefaults :: "(string \<times> jsval) list" where
  "countryDefaults =
     [(''nigeria'', nigeria_defaults),
      (''kenya'',
         JObj [(''currency'', JStr ''KES''),
               (''language'', JStr ''sw''),
               (''timezone'', JStr ''Africa/Nairobi''),
               (''phone_format'', JStr ''+254''),
               (''payment_methods'',
                  JArr [JStr ''mpesa'', JStr ''paystack'', JStr ''bank_transfer''])]),
      (''south_africa'',
         JObj [(''currency'', JStr ''ZAR''),
               (''language'', JStr ''en''),
               (''timezone'', JStr ''Africa/Johannesburg''),
               (''phone_format'', JStr ''+27''),
               (''payment_methods'',
                  JArr [JStr ''paystack'', JStr ''ozow'', JStr ''bank_transfer''])]),
      (''ghana'',
         JObj [(''currency'', JStr ''GHS''),
               (''language'', JStr ''en''),
               (''timezone'', JStr ''Africa/Accra''),
               (''phone_format'', JStr ''+233''),
               (''payment_methods'',
                  JArr [JStr ''paystack'', JStr ''flutterwave'', JStr ''mtn_mobile_money''])])]"

definition defaultLocalization :: "string \<Rightarrow> jsval" where
  \<comment> \<open>\<open>countryDefaults[country] || countryDefaults.nigeria\<close>\<close>
  "defaultLocalization country = js_or (table_get countryDefaults country) nigeria_defaults"

definition finalLocalization :: "string \<Rightarrow> jsval \<Rightarrow> jsval" where
  \<comment> \<open>\<open>{ ...defaultLocalization, ...localization }\<close>\<close>
  "finalLocalization country localization =
     JObj (spread localization (spread (defaultLocalization country) []))"

definition defaultCompliance :: jsval where
  "defaultCompliance =
     JObj [(''data_residency'', JStr ''local''),
           (''audit_logging'', JBool True),
           (''encryption'', JStr ''aes256''),
           (''gdpr_compliant'', JBool True),
           (''local_regulations'', JBool True)]"

definition integrations_tenantId :: "jsval \<Rightarrow> jsval \<Rightarrow> string option \<Rightarrow> jsval" where
  "integrations_tenantId tenantManager smeflowAgent tenantId =
     (let tenantId =
            (if truthy tenantManager \<and> truthy (get_prop tenantManager ''success'')
             then get_prop tenantManager ''tenant_id''
             else of_opt tenantId)
      in if truthy smeflowAgent \<and> truthy (get_prop smeflowAgent ''success'')
         then js_or tenantId (get_prop smeflowAgent ''tenant_id'')
         else tenantId)"

definition integrations_try ::
  "env \<Rightarrow> jsval \<Rightarrow> string \<Rightarrow> string \<Rightarrow> jsval \<Rightarrow> integrations_inputs \<Rightarrow> string \<Rightarrow>
   (js_error + jsval) \<times> nat" where
  \<comment> \<open>the body of the \<open>try\<close> block\<close>
  "integrations_try e instance_id integrationType country tenantId inputs apiUrl =
     (case JSON_parse e (or_default (ai_integrationConfig inputs) ''{}'') of
        Inl err \<Rightarrow> (Inl err, 0)
      | Inr config \<Rightarrow>
     (case JSON_parse e (or_default (ai_requestData inputs) ''{}'') of
        Inl err \<Rightarrow> (Inl err, 0)
      | Inr data \<Rightarrow>
     (case JSON_parse e (or_default (ai_marketLocalization inputs) ''{}'') of
        Inl err \<Rightarrow> (Inl err, 0)
      | Inr localization \<Rightarrow>
     (case JSON_parse e (or_default (ai_complianceSettings inputs) ''{}'') of
        Inl err \<Rightarrow> (Inl err, 0)
      | Inr compliance \<Rightarrow>
          let finalLoc = finalLocalization country localization;
              finalCompliance = JObj (spread compliance (spread defaultCompliance []));
              headers =
                [(''Content-Type'', JStr ''application/json''),
                 (''X-Tenant-ID'', tenantId),
                 (''X-Country'', JStr country),
                 (''X-Integration-Type'', JStr integrationType)]
                @ (if present (ai_apiKey inputs)
                   then [(''Authorization'',
                            JStr (''Bearer '' @ or_default (ai_apiKey inputs) []))]
                   else []);
              integrationRequest =
                JObj [(''integration_type'', JStr integrationType),
                      (''country'', JStr country),
                      (''tenant_id'', tenantId),
                      (''config'',
                         JObj (put_all [(''source'', JStr ''flowise''),
                                        (''workflow_id'', instance_id),
                                        (''created_at'', JStr (env_now e))]
                                 (spread finalLoc (spread config [])))),
                      (''request_data'', data),
                      (''compliance_settings'', finalCompliance),
                      (''execution_options'',
                         JObj [(''async'', JBool False),
                               (''timeout'', JNum ''120''),
                               (''retry_on_failure'', JBool True),
                               (''max_retries'', JNum ''3'')])];
              (outcome, calls) =
                axios_post e 0
                  \<lparr>req_url = apiUrl @ ''/api/v1/integrations/african-markets/execute'',
                   req_body = integrationRequest, req_headers = headers,
                   req_timeout = Some 120000\<rparr>
          in case outcome of
               Inl err \<Rightarrow> (Inl err, calls)
             | Inr response \<Rightarrow>
                 let rdata = resp_data response
                 in case read_prop rdata ''integration_id'' of
                      Inl err \<Rightarrow> (Inl err, calls)
                    | Inr integration_id \<Rightarrow>
                        (Inr (JObj [(''success'', JBool True),
                                    (''integration_type'', JStr integrationType),
                                    (''country'', JStr country),
                                    (''integration_id'', integration_id),
                                    (''transaction_id'', get_prop rdata ''transaction_id''),
                                    (''status'', get_prop rdata ''status''),
                                    (''result'', get_prop rdata ''result''),
                                    (''provider_response'', get_prop rdata ''provider_response''),
                                    (''fees'', get_prop rdata ''fees''),
                                    (''exchange_rate'', get_prop rdata ''exchange_rate''),
                                    (''local_amount'', get_prop rdata ''local_amount''),
                                    (''confirmation_code'', get_prop rdata ''confirmation_code''),
                                    (''cost_usd'', get_prop rdata ''cost_usd''),
                                    (''execution_time'', get_prop rdata ''execution_time''),
                                    (''tenant_id'', tenantId),
                                    (''market_config'', finalLoc),
                                    (''compliance_status'', get_prop rdata ''compliance_status''),
                                    (''timestamp'', JStr (env_now e))]),
                         calls)))))"

definition integrations_catch :: "env \<Rightarrow> string \<Rightarrow> string \<Rightarrow> jsval \<Rightarrow> js_error \<Rightarrow> jsval" where
  "integrations_catch e integrationType country tenantId error =
     JObj [(''success'', JBool False),
           (''integration_type'', JStr integrationType),
           (''country'', JStr country),
           (''error'', JStr (err_message error)),
           (''error_code'', js_or (error_response_status error) (JStr ''UNKNOWN'')),
           (''provider_error'',
              (case err_response error of
                 None \<Rightarrow> JUndefined
               | Some r \<Rightarrow> get_prop (resp_data r) ''provider_error'')),
           (''tenant_id'', tenantId),
           (''timestamp'', JStr (env_now e))]"

definition integrations_init ::
  "env \<Rightarrow> jsval \<Rightarrow> integrations_inputs \<Rightarrow> (js_error + jsval) \<times> nat" where
  \<comment> \<open>\<open>init(nodeData, _, options)\<close>\<close>
  "integrations_init e instance_id inputs =
     (let integrationType = or_default (ai_integrationType inputs) ''mpesa_payment'';
          country = or_default (ai_country inputs) ''nigeria'';
          apiUrl = or_default (ai_apiUrl inputs) ''http://smeflow:8000'';
          tenantId =
            integrations_tenantId (ai_tenantManager inputs) (ai_smeflowAgent inputs)
              (ai_tenantId inputs)
      in if \<not> truthy tenantId then
           throw ''Tenant ID is required for multi-tenant isolation''
         else if \<not> present (ai_integrationConfig inputs) then
           throw ''Integration Configuration is required''
         else if \<not> present (ai_requestData inputs) then
           throw ''Transaction/Request Data is required''
         else if \<not> uuidRegex_test (to_string tenantId) then
           throw ''Tenant ID must be a valid UUID format''
         else
           case integrations_try e instance_id integrationType country tenantId inputs apiUrl of
             (Inl error, calls) \<Rightarrow>
               (Inr (integrations_catch e integrationType country tenantId error), calls)
           | (Inr result, calls) \<Rightarrow> (Inr result, calls))"

section \<open>Sample invocations\<close>

text \<open>
  A small world and inputs for each node, used to run the definitions above on concrete
  values. The sample parser knows three texts and rejects every other one.
\<close>

definition sample_parse :: "string \<Rightarrow> string + jsval" where
  \<open>sample_parse s =
     (if s = ''{}'' then Inr (JObj [])
      else if s = ''{"business_hours": {"start": "10:00"}}''
        then Inr (JObj [(''business_hours'', JObj [(''start'', JStr ''10:00'')])])
      else if s = ''{"currency": "EGP"}''
        then Inr (JObj [(''currency'', JStr ''EGP'')])
      else Inl ''Unexpected token'')\<close>

definition sample_uuid :: string where
  "sample_uuid = ''550e8400-e29b-41d4-a716-446655440000''"

definition sample_env :: "(nat \<Rightarrow> request \<Rightarrow> reply) \<Rightarrow> env" where
  "sample_env backend =
     \<lparr>env_parse = sample_parse, env_backend = backend,
      env_now = ''2025-01-01T00:00:00.000Z'', env_now_ms = ''1735689600000''\<rparr>"

definition refused_then_ok :: "nat \<Rightarrow> request \<Rightarrow> reply" where
  \<comment> \<open>a backend that cannot be reached by the first call and answers every later one\<close>
  "refused_then_ok n req =
     (if n = 0 then NoReply ''connect ECONNREFUSED'' else Reply 200 (JObj [(''mentor_id'', JStr ''m-1'')]))"

definition always :: "reply \<Rightarrow> nat \<Rightarrow> request \<Rightarrow> reply" where
  "always r n req = r"

definition sample_mentor_inputs :: mentor_inputs where
  "sample_mentor_inputs =
     \<lparr>mi_guidanceType = None, mi_industrySector = None, mi_tenantId = Some sample_uuid,
      mi_businessContext = None, mi_question = Some ''How do I price my services?'',
      mi_marketConfig = None, mi_apiUrl = None, mi_apiKey = None\<rparr>"


definition sample_automator_inputs :: automator_inputs where
  "sample_automator_inputs =
     \<lparr>au_tenantManager = JUndefined, au_taskType = None, au_tenantId = Some sample_uuid,
      au_taskConfig = None, au_inputData = None, au_marketConfig = None, au_apiUrl = None,
      au_apiKey = None\<rparr>"

definition sample_tenant_manager_inputs :: tenant_manager_inputs where
  "sample_tenant_manager_inputs =
     \<lparr>tm_operation = None, tm_tenantId = Some sample_uuid, tm_tenantName = None,
      tm_tenantConfig = None, tm_marketSettings = None, tm_apiUrl = None, tm_apiKey = None\<rparr>"

definition sample_executor_inputs :: executor_inputs where
  "sample_executor_inputs =
     \<lparr>ex_tenantManager = JUndefined, ex_workflowType = Some ''salon_spa'',
      ex_tenantId = Some sample_uuid, ex_inputData = None, ex_workflowContext = None,
      ex_marketConfig = None, ex_businessRules = None, ex_apiUrl = None, ex_apiKey = None,
      ex_useCache = JUndefined\<rparr>"

definition sample_integrations_inputs :: integrations_inputs where
  "sample_integrations_inputs =
     \<lparr>ai_smeflowAgent = JUndefined, ai_tenantManager = JUndefined, ai_integrationType = None,
      ai_country = Some ''egypt'', ai_tenantId = Some sample_uuid,
      ai_integrationConfig = Some ''{}'', ai_requestData = Some ''{}'',
      ai_marketLocalization = None, ai_complianceSettings = None, ai_apiUrl = None,
      ai_apiKey = None\<rparr>"

definition sample_supervisor_inputs :: node_inputs where
  "sample_supervisor_inputs =
     \<lparr>in_tenantId = JStr sample_uuid, in_apiUrl = Some ''http://smeflow:8000'',
      in_apiKey = None, in_taskConfig = None, in_inputData = None, in_question = None,
      in_businessContext = None, in_workflowConfig = JUndefined,
      in_agentCoordination = JStr [], in_integrationConfig = None\<rparr>"

section \<open>Vocabulary of the properties\<close>

definition reply_ok :: "reply \<Rightarrow> bool" where
  \<comment> \<open>the client resolves: the backend answered with a status in 200..299\<close>
  "reply_ok r = (case r of Reply st body \<Rightarrow> 200 \<le> st \<and> st < 300 | NoReply m \<Rightarrow> False)"

definition parses :: "env \<Rightarrow> string option \<Rightarrow> bool" where
  \<comment> \<open>\<open>JSON.parse(field || '{}')\<close> returns a value\<close>
  "parses e field = (case env_parse e (or_default field ''{}'') of Inl m \<Rightarrow> False | Inr v \<Rightarrow> True)"

definition parsed :: "env \<Rightarrow> string option \<Rightarrow> jsval" where
  \<comment> \<open>the value of \<open>JSON.parse(field || '{}')\<close> when there is one\<close>
  "parsed e field = (case env_parse e (or_default field ''{}'') of Inl m \<Rightarrow> JUndefined | Inr v \<Rightarrow> v)"

definition mentor_precheck :: "mentor_inputs \<Rightarrow> bool" where
  \<comment> \<open>the three guards the Mentor evaluates before its \<open>try\<close> block all pass\<close>
  "mentor_precheck inputs =
     (present (mi_tenantId inputs) \<and> present (mi_question inputs) \<and>
      uuidRegex_test (or_default (mi_tenantId inputs) []))"

definition automator_tenantId :: "automator_inputs \<Rightarrow> jsval \<Rightarrow> jsval" where
  \<comment> \<open>the tenant id the Automator settles on\<close>
  "automator_tenantId inputs input =
     connected_tenantId (js_or (au_tenantManager inputs) input) input (au_tenantId inputs)"

definition executor_tenantId :: "executor_inputs \<Rightarrow> jsval \<Rightarrow> jsval" where
  \<comment> \<open>the tenant id the Workflow Executor settles on\<close>
  "executor_tenantId inputs input =
     connected_tenantId (js_or (ex_tenantManager inputs) input) input (ex_tenantId inputs)"

definition integrations_precheck :: "integrations_inputs \<Rightarrow> bool" where
  \<comment> \<open>the four guards the integrations node evaluates before its \<open>try\<close> block all pass\<close>
  "integrations_precheck inputs =
     (let tenantId =
            integrations_tenantId (ai_tenantManager inputs) (ai_smeflowAgent inputs)
              (ai_tenantId inputs)
      in truthy tenantId \<and> present (ai_integrationConfig inputs) \<and>
         present (ai_requestData inputs) \<and> uuidRegex_test (to_string tenantId))"

definition inherited_names :: "string list" where
  \<comment> \<open>the names an object literal answers to without having them as own properties\<close>
  "inherited_names = ''__proto__'' # ''constructor'' # object_prototype_functions"





definition tenant_predicate :: "string \<Rightarrow> string" where
  \<comment> \<open>\<open>tenant_id = '<id>'\<close>\<close>
  "tenant_predicate tid = ''tenant_id = '' @ [apostrophe] @ tid @ [apostrophe]"

definition can_be_prototype :: "pval \<Rightarrow> bool" where
  \<comment> \<open>the values the prototype setter acts on: objects and \<open>null\<close>\<close>
  "can_be_prototype v = (is_object v \<or> v = PNull)"

fun proto_safe :: "pval \<Rightarrow> bool" where
  \<comment> \<open>no own property, at any depth, has a name that sanitizes to \<open>__proto__\<close> together
      with a value that is an object, an array or \<open>null\<close>\<close>
  "proto_safe (PObj own ancestors root) =
     list_all (\<lambda>(k, v). \<not> (sanitize_string k = ''__proto__'' \<and> can_be_prototype v) \<and> proto_safe v)
       own"
| "proto_safe (PArr xs) = list_all proto_safe xs"
| "proto_safe v = True"

subsection \<open>Well-ordered property lists\<close>

definition js_before :: "string \<Rightarrow> string \<Rightarrow> bool" where
  \<comment> \<open>the key \<open>k\<close> may be listed before the key \<open>k'\<close>\<close>
  "js_before k k' =
     (case array_index k of
        None \<Rightarrow> array_index k' = None
      | Some m \<Rightarrow> (case array_index k' of None \<Rightarrow> True | Some n \<Rightarrow> m \<le> n))"

definition js_ordered :: "(string \<times> 'v) list \<Rightarrow> bool" where
  \<comment> \<open>a property list as \<open>Object.entries\<close> reports it: each key once, array indices
      first and ascending\<close>
  "js_ordered fs = (distinct (map fst fs) \<and> sorted_wrt js_before (map fst fs))"

section \<open>Properties\<close>

subsection \<open>The UUID pattern accepts the canonical grammar\<close>







lemma sample_uuid_ok: "uuidRegex_test sample_uuid"
  unfolding sample_uuid_def by code_simp

subsection \<open>Parsing\<close>

lemma JSON_parse_parses:
  "parses e field \<Longrightarrow> JSON_parse e (or_default field ''{}'') = Inr (parsed e field)"
  by (simp add: parses_def parsed_def JSON_parse_def split: sum.splits)

lemma JSON_parse_fails:
  "\<not> parses e field \<Longrightarrow>
   \<exists>m. JSON_parse e (or_default field ''{}'') = Inl (JsError SyntaxError m None)"
  by (simp add: parses_def JSON_parse_def split: sum.splits)

lemma sample_parses_absent: "parses (sample_env b) None"
  by (simp add: parses_def sample_env_def sample_parse_def or_default_def)

subsection \<open>The supervisor rule of the validator\<close>

text \<open>
  C7. A supervision invocation in which neither the workflow configuration nor the agent
  coordination is present (both falsy) is invalid, and the list of errors holds the
  message that one of the two is required. This holds whatever the other fields are and
  whatever the tenant and API checks found before.
\<close>

theorem supervisor_needs_workflow_or_coordination:
  assumes "\<not> truthy (in_workflowConfig inputs)" and "\<not> truthy (in_agentCoordination inputs)"
  shows "\<not> vr_valid (validateNodeInputs uuidValidate url_ok parse inputs ''supervisor'') \<and>
         ''Either workflow configuration or agent coordination is required''
           \<in> set (vr_errors (validateNodeInputs uuidValidate url_ok parse inputs ''supervisor''))"
  using assms
  by (simp add: validateNodeInputs_def validateSupervisorInputs_def fail_with_def Let_def)

theorem supervisor_needs_workflow_or_coordination_witness:
  "\<not> truthy (in_workflowConfig sample_supervisor_inputs) \<and>
   \<not> truthy (in_agentCoordination sample_supervisor_inputs) \<and>
   \<not> vr_valid (validateNodeInputs uuidRegex_test (\<lambda>u. True) sample_parse
                  sample_supervisor_inputs ''supervisor'') \<and>
   ''Either workflow configuration or agent coordination is required''
     \<in> set (vr_errors (validateNodeInputs uuidRegex_test (\<lambda>u. True) sample_parse
                         sample_supervisor_inputs ''supervisor''))"
proof -
  have a: "\<not> truthy (in_workflowConfig sample_supervisor_inputs)"
    by (simp add: sample_supervisor_inputs_def)
  have b: "\<not> truthy (in_agentCoordination sample_supervisor_inputs)"
    by (simp add: sample_supervisor_inputs_def)
  show ?thesis
    using a b supervisor_needs_workflow_or_coordination [OF a b] by simp
qed

subsection \<open>Looking up what was written\<close>

lemma map_of_insert_index:
  "k \<notin> fst ` set fs \<Longrightarrow>
   map_of (insert_index n k v fs) k' = (if k' = k then Some v else map_of fs k')"
  by (induction fs) (auto split: option.splits)

lemma map_of_put: "map_of (put k v fs) k' = (if k' = k then Some v else map_of fs k')"
proof (cases "k \<in> fst ` set fs")
  case True
  then show ?thesis by (simp add: put_def update_conv')
next
  case False
  then have "map_of fs k = None"
    by (simp add: map_of_eq_None_iff)
  with False show ?thesis
    by (simp add: put_def map_of_insert_index map_add_def split: option.splits)
qed

lemma map_of_put_all:
  "map_of (put_all es fs) k =
     (case map_of (rev es) k of Some v \<Rightarrow> Some v | None \<Rightarrow> map_of fs k)"
proof (induction es arbitrary: fs)
  case Nil
  then show ?case by (simp add: put_all_def)
next
  case (Cons p es)
  obtain k' v' where p: "p = (k', v')" by (cases p)
  have "put_all (p # es) fs = put_all es (put k' v' fs)"
    by (simp add: put_all_def p)
  then show ?case
    using Cons.IH [of "put k' v' fs"]
    by (auto simp add: p map_of_put split: option.splits)
qed

lemma map_of_rev_distinct:
  assumes "distinct (map fst es)"
  shows "map_of (rev es) = map_of es"
proof -
  from assms have "distinct (map fst (rev es))"
    by (simp add: rev_map [symmetric])
  with assms show ?thesis
    using map_of_inject_set [of "rev es" es] by simp
qed

lemma get_prop_spread:
  assumes "distinct (map fst (own_entries x))"
  shows "get_prop (JObj (spread x fs)) k =
           (if k \<in> fst ` set (own_entries x) then get_prop (JObj (own_entries x)) k
            else get_prop (JObj fs) k)"
proof (cases "map_of (own_entries x) k")
  case None
  then have "k \<notin> fst ` set (own_entries x)"
    by (simp add: map_of_eq_None_iff)
  with None assms show ?thesis
    by (simp add: get_prop_def spread_def map_of_put_all map_of_rev_distinct)
next
  case (Some v)
  then have "k \<in> fst ` set (own_entries x)"
    using map_of_eq_None_iff [of "own_entries x" k] by simp
  with Some assms show ?thesis
    by (simp add: get_prop_def spread_def map_of_put_all map_of_rev_distinct)
qed

subsection \<open>The configuration merge of the Automator\<close>

lemma automator_defaults_fields:
  "spread automator_defaultMarketConfig [] = own_entries automator_defaultMarketConfig"
  unfolding automator_defaultMarketConfig_def spread_def put_all_def
  by code_simp

subsection \<open>Status codes\<close>


lemma digit_char_digit: "d < 10 \<Longrightarrow> digit_char d \<in> set ''0123456789''"
proof -
  assume "d < 10"
  then have "d \<in> {0, 1, 2, 3, 4, 5, 6, 7, 8, 9}" by auto
  then show ?thesis by (auto simp add: digit_char_def)
qed


lemma string_of_nat_digits: "set (string_of_nat n) \<subseteq> set ''0123456789''"
proof (induction n rule: string_of_nat.induct)
  case (1 n)
  show ?case
  proof (cases "n < 10")
    case True
    then show ?thesis
      using digit_char_digit [of n] by (subst string_of_nat.simps) simp
  next
    case False
    then show ?thesis
      using 1 digit_char_digit [of "n mod 10"] by (subst string_of_nat.simps) simp
  qed
qed



subsection \<open>Outcomes of the Mentor\<close>

lemma axios_post_calls: "snd (axios_post e n req) = Suc n"
  by (simp add: axios_post_def)

lemma mentor_try_calls: "snd (mentor_try e iid g s t bc q mc u k) \<le> 1"
  by (simp add: mentor_try_def Let_def axios_post_def split: sum.splits prod.splits reply.splits)

lemma mentor_init_throws:
  "\<not> mentor_precheck inputs \<Longrightarrow> \<exists>m. mentor_init e iid inputs = (Inl (JsError Error m None), 0)"
  by (auto simp add: mentor_precheck_def mentor_init_def throw_def Let_def)

lemma mentor_catch_fields:
  "get_prop (mentor_catch e g s t err) ''success'' = JBool False"
  "get_prop (mentor_catch e g s t err) ''error'' = JStr (err_message err)"
  "get_prop (mentor_catch e g s t err) ''error_code''
     = js_or (error_response_status err) (JStr ''UNKNOWN'')"
  by (simp_all add: mentor_catch_def get_prop_def)

lemma mentor_init_returns:
  assumes "mentor_precheck inputs"
  shows "\<exists>r n. mentor_init e iid inputs = (Inr r, n) \<and> n \<le> 1 \<and>
           (get_prop r ''success'' = JBool True \<or>
            (\<exists>err. r = mentor_catch e (or_default (mi_guidanceType inputs) ''business_strategy'')
                          (or_default (mi_industrySector inputs) ''retail'')
                          (or_default (mi_tenantId inputs) []) err))"
proof -
  let ?t = "mentor_try e iid (or_default (mi_guidanceType inputs) ''business_strategy'')
              (or_default (mi_industrySector inputs) ''retail'')
              (or_default (mi_tenantId inputs) []) (mi_businessContext inputs)
              (or_default (mi_question inputs) []) (mi_marketConfig inputs)
              (or_default (mi_apiUrl inputs) ''http://smeflow:8000'') (mi_apiKey inputs)"
  obtain res n where t: "?t = (res, n)" by (cases ?t)
  have n: "n \<le> 1" using mentor_try_calls [of e iid] t
    by (metis snd_conv)
  show ?thesis
  proof (cases res)
    case (Inl err)
    with assms t n show ?thesis
      by (auto simp add: mentor_init_def mentor_precheck_def Let_def)
  next
    case (Inr r)
    with t have "get_prop r ''success'' = JBool True"
      by (auto simp add: mentor_try_def Let_def get_prop_def
          split: sum.splits prod.splits)
    with Inr assms t n show ?thesis
      by (auto simp add: mentor_init_def mentor_precheck_def Let_def)
  qed
qed






subsection \<open>Outcomes of the Automator\<close>

lemma automator_catch_fields:
  "get_prop (automator_catch e t tid err) ''success'' = JBool False"
  "get_prop (automator_catch e t tid err) ''error'' = JStr (err_message err)"
  "get_prop (automator_catch e t tid err) ''error_code'' = JUndefined"
  by (simp_all add: automator_catch_def get_prop_def)

lemma automator_init_throws:
  "\<not> truthy (automator_tenantId inputs input) \<Longrightarrow>
   automator_init e iid inputs input
     = (Inl (JsError Error ''Tenant ID is required for multi-tenant isolation'' None), 0)"
  by (simp add: automator_init_def automator_tenantId_def throw_def Let_def)

lemma automator_init_success:
  assumes "truthy (automator_tenantId inputs input)"
    and "parses e (au_taskConfig inputs)" and "parses e (au_inputData inputs)"
    and "parses e (au_marketConfig inputs)"
  shows "\<exists>r. automator_init e iid inputs input = (Inr r, 0) \<and>
           get_prop r ''success'' = JBool True \<and>
           get_prop r ''market_config''
             = automator_finalMarketConfig (parsed e (au_marketConfig inputs))"
  using assms
  by (simp add: automator_init_def automator_tenantId_def automator_try_def Let_def
      JSON_parse_parses)
    (simp add: get_prop_def)

lemma automator_init_parse_failure:
  assumes "truthy (automator_tenantId inputs input)"
    and "\<not> (parses e (au_taskConfig inputs) \<and> parses e (au_inputData inputs) \<and>
            parses e (au_marketConfig inputs))"
  shows "\<exists>r m. automator_init e iid inputs input = (Inr r, 0) \<and>
           get_prop r ''success'' = JBool False \<and>
           get_prop r ''error'' = JStr m \<and>
           get_prop r ''error_code'' = JUndefined"
  using assms
  by (auto simp add: automator_init_def automator_tenantId_def automator_try_def Let_def
      parses_def JSON_parse_def automator_catch_fields split: sum.splits)

lemma automator_init_calls: "snd (automator_init e iid inputs input) = 0"
proof (cases "truthy (automator_tenantId inputs input)")
  case False
  then show ?thesis by (simp add: automator_init_throws)
next
  case True
  show ?thesis
  proof (cases "parses e (au_taskConfig inputs) \<and> parses e (au_inputData inputs) \<and>
            parses e (au_marketConfig inputs)")
    case True
    with \<open>truthy (automator_tenantId inputs input)\<close> show ?thesis
      using automator_init_success [of inputs input e iid] by auto
  next
    case False
    with \<open>truthy (automator_tenantId inputs input)\<close> show ?thesis
      using automator_init_parse_failure [of inputs input e iid] by auto
  qed
qed

subsection \<open>Outbound calls of an invocation\<close>

lemma mentor_init_calls: "snd (mentor_init e iid inputs) \<le> 1"
proof (cases "mentor_precheck inputs")
  case True
  then show ?thesis
    using mentor_init_returns [of inputs e iid] by auto
next
  case False
  then show ?thesis
    using mentor_init_throws [of inputs e iid] by auto
qed

lemma mentor_init_failed_call:
  assumes "mentor_precheck inputs"
    and "parses e (mi_businessContext inputs)" and "parses e (mi_marketConfig inputs)"
    and "\<forall>req. \<not> reply_ok (env_backend e 0 req)"
  shows "\<exists>r. mentor_init e iid inputs = (Inr r, 1) \<and> get_prop r ''success'' = JBool False"
  using assms
  by (auto simp add: mentor_init_def mentor_precheck_def mentor_try_def Let_def
      JSON_parse_parses axios_post_def mentor_catch_fields reply_ok_def
      split: reply.splits)

lemma sample_precheck: "mentor_precheck sample_mentor_inputs"
  by (simp add: mentor_precheck_def sample_mentor_inputs_def present_def or_default_def
      sample_uuid_ok) (simp add: sample_uuid_def)

lemma sample_mentor_parses:
  "parses (sample_env b) (mi_businessContext sample_mentor_inputs)"
  "parses (sample_env b) (mi_marketConfig sample_mentor_inputs)"
  by (simp_all add: sample_mentor_inputs_def sample_parses_absent)

subsection \<open>Envelopes and exceptions\<close>





subsection \<open>One outbound call, no retry\<close>

text \<open>
  A backend that refuses the first call and would answer the second: the Mentor makes one
  call and returns the failure envelope of the refused call. There is no second attempt.
\<close>

theorem first_failure_is_final:
  "mentor_init (sample_env refused_then_ok) JUndefined sample_mentor_inputs
     = (Inr (mentor_catch (sample_env refused_then_ok) ''business_strategy'' ''retail''
               sample_uuid (JsError AxiosError ''connect ECONNREFUSED'' None)),
        1) \<and>
   refused_then_ok 1 = always (Reply 200 (JObj [(''mentor_id'', JStr ''m-1'')])) 1"
proof -
  have u: "uuidRegex_test sample_uuid" "sample_uuid \<noteq> []"
    by (simp_all add: sample_uuid_ok) (simp add: sample_uuid_def)
  have "mentor_init (sample_env refused_then_ok) JUndefined sample_mentor_inputs
     = (Inr (mentor_catch (sample_env refused_then_ok) ''business_strategy'' ''retail''
               sample_uuid (JsError AxiosError ''connect ECONNREFUSED'' None)),
        1)"
    using u
    by (simp add: mentor_init_def mentor_try_def sample_mentor_inputs_def present_def
        or_default_def Let_def JSON_parse_def sample_env_def sample_parse_def axios_post_def
        refused_then_ok_def)
  moreover have "refused_then_ok 1 = always (Reply 200 (JObj [(''mentor_id'', JStr ''m-1'')])) 1"
    by (rule ext) (simp add: refused_then_ok_def always_def)
  ultimately show ?thesis by simp
qed

text \<open>
  C6, as the code has it. No node re-attempts an outbound call: the Mentor makes at
  most one call per invocation and the Automator none (it prepares a request that
  declares \<open>retry_on_failure\<close> and \<open>max_retries: 3\<close> and never sends it). When the one
  call of the Mentor fails, by a transport error or by any status outside 2xx, the
  statuses from 500 up and 429 included, the invocation ends there with a failure
  envelope. Nothing is retried, so nothing is retried for ever.
\<close>

theorem at_most_one_outbound_call:
  "snd (mentor_init e iid mi) \<le> 1 \<and>
   snd (automator_init e iid au input) = 0 \<and>
   (mentor_precheck mi \<and> parses e (mi_businessContext mi) \<and> parses e (mi_marketConfig mi) \<and>
    (\<forall>req. \<not> reply_ok (env_backend e 0 req)) \<longrightarrow>
      (\<exists>r. mentor_init e iid mi = (Inr r, 1) \<and> get_prop r ''success'' = JBool False))"
  using mentor_init_calls [of e iid mi] automator_init_calls [of e iid au input]
    mentor_init_failed_call [of mi e iid]
  by blast

theorem at_most_one_outbound_call_witness:
  "mentor_precheck sample_mentor_inputs \<and>
   (\<forall>req. \<not> reply_ok (env_backend (sample_env (always (Reply 503 JNull))) 0 req)) \<and>
   (\<exists>r. mentor_init (sample_env (always (Reply 503 JNull))) JUndefined sample_mentor_inputs
           = (Inr r, 1) \<and>
        get_prop r ''success'' = JBool False)"
proof -
  have f: "\<forall>req. \<not> reply_ok (env_backend (sample_env (always (Reply 503 JNull))) 0 req)"
    by (simp add: sample_env_def always_def reply_ok_def)
  with sample_precheck sample_mentor_parses [of "always (Reply 503 JNull)"]
  show ?thesis
    using at_most_one_outbound_call
      [where mi = sample_mentor_inputs and e = "sample_env (always (Reply 503 JNull))"
         and iid = JUndefined]
    by blast
qed

subsection \<open>The merge is right-biased and shallow\<close>

text \<open>
  C5. The effective market configuration is the defaults overwritten, key by key, by the
  caller's overrides: a key of the overrides has exactly the override's value, every
  other key keeps its default, and nothing is merged below the top level. The default
  \<open>business_hours\<close> has \<open>start\<close>, \<open>end\<close> and \<open>timezone\<close>; an override
  \<open>{business_hours: {start: "10:00"}}\<close> leaves exactly \<open>{start: "10:00"}\<close>. An
  Automator invocation that succeeds reports this merge as \<open>market_config\<close>. (An object
  has each key once; that is the first hypothesis.)
\<close>

theorem merge_is_right_biased_and_shallow:
  "(distinct (map fst (own_entries overrides)) \<longrightarrow>
      (\<forall>k v. (k, v) \<in> set (own_entries overrides) \<longrightarrow>
             get_prop (automator_finalMarketConfig overrides) k = v) \<and>
      (\<forall>k. k \<notin> fst ` set (own_entries overrides) \<longrightarrow>
             get_prop (automator_finalMarketConfig overrides) k
               = get_prop automator_defaultMarketConfig k)) \<and>
   get_prop automator_defaultMarketConfig ''business_hours''
     = JObj [(''start'', JStr ''08:00''), (''end'', JStr ''18:00''),
             (''timezone'', JStr ''Africa/Lagos'')] \<and>
   get_prop (automator_finalMarketConfig
               (JObj [(''business_hours'', JObj [(''start'', JStr ''10:00'')])]))
            ''business_hours''
     = JObj [(''start'', JStr ''10:00'')] \<and>
   (truthy (automator_tenantId au input) \<and> parses e (au_taskConfig au) \<and>
    parses e (au_inputData au) \<and> parses e (au_marketConfig au) \<longrightarrow>
      (\<exists>r. automator_init e iid au input = (Inr r, 0) \<and>
           get_prop r ''market_config''
             = automator_finalMarketConfig (parsed e (au_marketConfig au))))"
proof -
  have d: "get_prop (JObj (spread automator_defaultMarketConfig [])) k
             = get_prop automator_defaultMarketConfig k" for k
    by (simp only: automator_defaults_fields) (simp add: automator_defaultMarketConfig_def)
  have a: "get_prop (automator_finalMarketConfig ov) k = v"
    if "distinct (map fst (own_entries ov))" "(k, v) \<in> set (own_entries ov)"
    for ov k v
  proof -
    from that have "k \<in> fst ` set (own_entries ov)" by force
    with that(1) have "get_prop (automator_finalMarketConfig ov) k
                         = get_prop (JObj (own_entries ov)) k"
      by (simp add: automator_finalMarketConfig_def get_prop_spread)
    moreover from that have "map_of (own_entries ov) k = Some v" by simp
    ultimately show ?thesis
      by (simp add: get_prop_def)
  qed
  have b: "get_prop (automator_finalMarketConfig overrides) k
             = get_prop automator_defaultMarketConfig k"
    if "distinct (map fst (own_entries overrides))" "k \<notin> fst ` set (own_entries overrides)"
    for k
    using that by (simp add: automator_finalMarketConfig_def get_prop_spread d)
  have c: "get_prop automator_defaultMarketConfig ''business_hours''
     = JObj [(''start'', JStr ''08:00''), (''end'', JStr ''18:00''),
             (''timezone'', JStr ''Africa/Lagos'')]"
    by (simp add: automator_defaultMarketConfig_def get_prop_def)
  have e: "get_prop (automator_finalMarketConfig
               (JObj [(''business_hours'', JObj [(''start'', JStr ''10:00'')])]))
            ''business_hours''
     = JObj [(''start'', JStr ''10:00'')]"
    using a [of "JObj [(''business_hours'', JObj [(''start'', JStr ''10:00'')])]"
               "''business_hours''" "JObj [(''start'', JStr ''10:00'')]"]
    by simp
  have f: "truthy (automator_tenantId au input) \<and> parses e (au_taskConfig au) \<and>
    parses e (au_inputData au) \<and> parses e (au_marketConfig au) \<longrightarrow>
      (\<exists>r. automator_init e iid au input = (Inr r, 0) \<and>
           get_prop r ''market_config''
             = automator_finalMarketConfig (parsed e (au_marketConfig au)))"
    using automator_init_success [of au input e iid] by blast
  from a [of overrides] b c e f show ?thesis by blast
qed

theorem merge_is_right_biased_and_shallow_witness:
  \<open>distinct (map fst (own_entries (JObj [(''business_hours'', JObj [(''start'', JStr ''10:00'')])]))) \<and>
   (''business_hours'', JObj [(''start'', JStr ''10:00'')])
     \<in> set (own_entries (JObj [(''business_hours'', JObj [(''start'', JStr ''10:00'')])])) \<and>
   ''currency'' \<notin> fst ` set (own_entries (JObj [(''business_hours'', JObj [(''start'', JStr ''10:00'')])])) \<and>
   truthy (automator_tenantId (sample_automator_inputs\<lparr>au_marketConfig := Some ''{"business_hours": {"start": "10:00"}}''\<rparr>) JUndefined) \<and>
   (\<exists>r. automator_init (sample_env refused_then_ok) JUndefined
           (sample_automator_inputs\<lparr>au_marketConfig := Some ''{"business_hours": {"start": "10:00"}}''\<rparr>)
           JUndefined = (Inr r, 0) \<and>
        get_prop (get_prop r ''market_config'') ''business_hours''
          = JObj [(''start'', JStr ''10:00'')] \<and>
        get_prop (get_prop r ''market_config'') ''currency'' = JStr ''NGN'')\<close>
proof -
  let ?ov = "JObj [(''business_hours'', JObj [(''start'', JStr ''10:00'')])]"
  let ?au = \<open>sample_automator_inputs\<lparr>au_marketConfig := Some ''{"business_hours": {"start": "10:00"}}''\<rparr>\<close>
  let ?e = "sample_env refused_then_ok"
  note T = merge_is_right_biased_and_shallow
      [where overrides = ?ov and au = ?au and input = JUndefined and e = ?e and iid = JUndefined]
  have h1: "distinct (map fst (own_entries ?ov))" by simp
  have h2: "(''business_hours'', JObj [(''start'', JStr ''10:00'')]) \<in> set (own_entries ?ov)"
    by simp
  have h3: "''currency'' \<notin> fst ` set (own_entries ?ov)" by simp
  have h4: "truthy (automator_tenantId ?au JUndefined)"
    by (simp add: automator_tenantId_def sample_automator_inputs_def connected_tenantId_def
      js_or_def of_opt_def sample_uuid_def)
  have h5: "parses ?e (au_taskConfig ?au)" "parses ?e (au_inputData ?au)"
    by (simp_all add: sample_automator_inputs_def sample_parses_absent)
  have h6: "parses ?e (au_marketConfig ?au)"
    by (simp add: parses_def sample_env_def sample_parse_def or_default_def)
  have h7: "parsed ?e (au_marketConfig ?au) = ?ov"
    by (simp add: parsed_def sample_env_def sample_parse_def or_default_def)
  from T h1 h2 have g1: "get_prop (automator_finalMarketConfig ?ov) ''business_hours''
      = JObj [(''start'', JStr ''10:00'')]"
    by blast
  from T h1 h3 have "get_prop (automator_finalMarketConfig ?ov) ''currency''
      = get_prop automator_defaultMarketConfig ''currency''"
    by blast
  then have g2: "get_prop (automator_finalMarketConfig ?ov) ''currency'' = JStr ''NGN''"
    by (simp add: automator_defaultMarketConfig_def get_prop_def)
  from T h4 h5 h6 obtain r where
    r: "automator_init ?e JUndefined ?au JUndefined = (Inr r, 0)"
       "get_prop r ''market_config'' = automator_finalMarketConfig (parsed ?e (au_marketConfig ?au))"
    by blast
  from r g1 g2 h7 have "\<exists>r. automator_init ?e JUndefined ?au JUndefined = (Inr r, 0) \<and>
        get_prop (get_prop r ''market_config'') ''business_hours''
          = JObj [(''start'', JStr ''10:00'')] \<and>
        get_prop (get_prop r ''market_config'') ''currency'' = JStr ''NGN''"
    by simp
  with h1 h2 h3 h4 show ?thesis by (intro conjI)
qed

subsection \<open>The Tenant Manager\<close>

text \<open>
  C8. Whenever the tenant id is present and passes the UUID pattern, the Tenant Manager
  returns a result with \<open>success: false\<close> and \<open>error_code: 'UNKNOWN'\<close>, without any
  outbound call: when the tenant configuration parses, the read of the undeclared
  \<open>marketConfig\<close> throws a ReferenceError, whose message the \<open>catch\<close> block reports
  (a tenant configuration that does not parse is reported in the same way, with the
  parser's message). No input at all makes it return a result with another value of
  \<open>success\<close>.
\<close>

theorem tenant_manager_never_succeeds:
  "(present (tm_tenantId inputs) \<and> uuidRegex_test (or_default (tm_tenantId inputs) []) \<longrightarrow>
      (\<exists>r. tenant_manager_init e inputs = (Inr r, 0) \<and>
            get_prop r ''success'' = JBool False \<and>
            get_prop r ''error_code'' = JStr ''UNKNOWN'' \<and>
            (parses e (tm_tenantConfig inputs) \<longrightarrow>
               get_prop r ''error'' = JStr ''marketConfig is not defined''))) \<and>
   (\<forall>r n. tenant_manager_init e inputs = (Inr r, n) \<longrightarrow> get_prop r ''success'' = JBool False)"
  by (auto simp add: tenant_manager_init_def tenant_manager_try_def tenant_manager_catch_def
      throw_def Let_def get_prop_def js_or_def error_response_status_def parses_def JSON_parse_def
      split: sum.splits)

theorem tenant_manager_never_succeeds_witness:
  "present (tm_tenantId sample_tenant_manager_inputs) \<and>
   uuidRegex_test (or_default (tm_tenantId sample_tenant_manager_inputs) []) \<and>
   parses (sample_env refused_then_ok) (tm_tenantConfig sample_tenant_manager_inputs) \<and>
   (\<exists>r. tenant_manager_init (sample_env refused_then_ok) sample_tenant_manager_inputs
           = (Inr r, 0) \<and>
        get_prop r ''success'' = JBool False \<and>
        get_prop r ''error_code'' = JStr ''UNKNOWN'' \<and>
        get_prop r ''error'' = JStr ''marketConfig is not defined'')"
proof -
  have h1: "present (tm_tenantId sample_tenant_manager_inputs)"
    by (simp add: sample_tenant_manager_inputs_def present_def sample_uuid_def)
  have h2: "uuidRegex_test (or_default (tm_tenantId sample_tenant_manager_inputs) [])"
    using sample_uuid_ok
    by (simp add: sample_tenant_manager_inputs_def or_default_def)
  have h3: "parses (sample_env refused_then_ok) (tm_tenantConfig sample_tenant_manager_inputs)"
    by (simp add: sample_tenant_manager_inputs_def sample_parses_absent)
  from h1 h2 h3 show ?thesis
    using tenant_manager_never_succeeds
      [where inputs = sample_tenant_manager_inputs and e = "sample_env refused_then_ok"]
    by blast
qed

subsection \<open>The Workflow Executor\<close>

lemma executor_fallback_fields:
  "get_prop (executor_fallback e w t d m b err) ''success'' = JBool True"
  "get_prop (executor_fallback e w t d m b err) ''status'' = JStr ''completed''"
  "get_prop (executor_fallback e w t d m b err) ''fallback_mode'' = JBool True"
  "get_prop (executor_fallback e w t d m b err) ''fallback_reason'' = JStr (err_message err)"
  "get_prop (get_prop (executor_fallback e w t d m b err) ''result'') ''description''
     = JStr (''Simulated '' @ w @ '' workflow execution'')"
  by (simp_all add: executor_fallback_def get_prop_def)

text \<open>
  C9. When the tenant id is present and the four JSON inputs parse, a failed API call
  (no reply, or a reply outside 2xx) is not reported as a failure: after that one call
  the Workflow Executor returns \<open>success: true\<close>, \<open>status: 'completed'\<close>,
  \<open>fallback_mode: true\<close> and a simulated result, and no \<open>error\<close> field.
\<close>

theorem executor_hides_api_failure:
  assumes "truthy (executor_tenantId inputs input)"
    and "parses e (ex_inputData inputs)" and "parses e (ex_workflowContext inputs)"
    and "parses e (ex_marketConfig inputs)" and "parses e (ex_businessRules inputs)"
    and "\<forall>req. \<not> reply_ok (env_backend e 0 req)"
  shows "\<exists>r. executor_init e iid inputs input = (Inr r, 1) \<and>
           get_prop r ''success'' = JBool True \<and>
           get_prop r ''status'' = JStr ''completed'' \<and>
           get_prop r ''fallback_mode'' = JBool True \<and>
           get_prop (get_prop r ''result'') ''description''
             = JStr (''Simulated '' @ or_default (ex_workflowType inputs) ''consulting''
                     @ '' workflow execution'') \<and>
           get_prop r ''error'' = JUndefined"
  using assms
  by (auto simp add: executor_init_def executor_tenantId_def executor_try_def Let_def
      JSON_parse_parses axios_post_def executor_fallback_fields reply_ok_def
      split: reply.splits)
    (simp_all add: executor_fallback_def get_prop_def)


theorem executor_hides_api_failure_witness:
  "truthy (executor_tenantId sample_executor_inputs JUndefined) \<and>
   parses (sample_env (always (Reply 503 JNull))) (ex_inputData sample_executor_inputs) \<and>
   (\<forall>req. \<not> reply_ok (env_backend (sample_env (always (Reply 503 JNull))) 0 req)) \<and>
   (\<exists>r. executor_init (sample_env (always (Reply 503 JNull))) JUndefined
           sample_executor_inputs JUndefined = (Inr r, 1) \<and>
        get_prop r ''success'' = JBool True \<and>
        get_prop r ''status'' = JStr ''completed'' \<and>
        get_prop r ''fallback_mode'' = JBool True \<and>
        get_prop (get_prop r ''result'') ''description''
          = JStr ''Simulated salon_spa workflow execution'')"
proof -
  let ?e = "sample_env (always (Reply 503 JNull))"
  have h1: "truthy (executor_tenantId sample_executor_inputs JUndefined)"
    by (simp add: executor_tenantId_def sample_executor_inputs_def connected_tenantId_def
        js_or_def of_opt_def sample_uuid_def)
  have h2: "parses ?e (ex_inputData sample_executor_inputs)"
    "parses ?e (ex_workflowContext sample_executor_inputs)"
    "parses ?e (ex_marketConfig sample_executor_inputs)"
    "parses ?e (ex_businessRules sample_executor_inputs)"
    by (simp_all add: sample_executor_inputs_def sample_parses_absent)
  have h3: "\<forall>req. \<not> reply_ok (env_backend ?e 0 req)"
    by (simp add: sample_env_def always_def reply_ok_def)
  have w: "or_default (ex_workflowType sample_executor_inputs) ''consulting'' = ''salon_spa''"
    by (simp add: sample_executor_inputs_def or_default_def)
  from executor_hides_api_failure [OF h1 h2 h3, of JUndefined]
  obtain r where "executor_init ?e JUndefined sample_executor_inputs JUndefined = (Inr r, 1)"
    and "get_prop r ''success'' = JBool True"
    and "get_prop r ''status'' = JStr ''completed''"
    and "get_prop r ''fallback_mode'' = JBool True"
    and "get_prop (get_prop r ''result'') ''description''
           = JStr (''Simulated '' @ or_default (ex_workflowType sample_executor_inputs)
                     ''consulting'' @ '' workflow execution'')"
    by blast
  with w have "\<exists>r. executor_init ?e JUndefined sample_executor_inputs JUndefined = (Inr r, 1) \<and>
        get_prop r ''success'' = JBool True \<and>
        get_prop r ''status'' = JStr ''completed'' \<and>
        get_prop r ''fallback_mode'' = JBool True \<and>
        get_prop (get_prop r ''result'') ''description''
          = JStr ''Simulated salon_spa workflow execution''"
    by simp
  with h1 h2(1) h3 show ?thesis by (intro conjI)
qed

subsection \<open>Country defaults of the integrations node\<close>

lemma nigeria_fields: "spread nigeria_defaults [] = own_entries nigeria_defaults"
  unfolding nigeria_defaults_def spread_def put_all_def
  by code_simp

lemma defaultLocalization_unsupported:
  assumes "country \<notin> fst ` set countryDefaults" and "country \<notin> set inherited_names"
  shows "defaultLocalization country = nigeria_defaults"
proof -
  from assms(1) have "map_of countryDefaults country = None"
    by (simp add: map_of_eq_None_iff)
  with assms(2) show ?thesis
    by (simp add: defaultLocalization_def table_get_def inherited_names_def js_or_def)
qed

lemma integrations_country:
  "integrations_init e iid inputs = (Inr r, n) \<Longrightarrow>
   get_prop r ''country'' = JStr (or_default (ai_country inputs) ''nigeria'')"
  by (auto simp add: integrations_init_def integrations_try_def integrations_catch_def
      throw_def Let_def get_prop_def axios_post_def JSON_parse_def read_prop_def
      split: if_splits sum.splits prod.splits reply.splits)

lemma integrations_success:
  assumes "integrations_precheck inputs"
    and "parses e (ai_integrationConfig inputs)" and "parses e (ai_requestData inputs)"
    and "parses e (ai_marketLocalization inputs)" and "parses e (ai_complianceSettings inputs)"
    and "\<forall>req. env_backend e 0 req = Reply st body"
    and "200 \<le> st \<and> st < 300" and "\<not> nullish body"
  shows "\<exists>r. integrations_init e iid inputs = (Inr r, 1) \<and>
           get_prop r ''success'' = JBool True \<and>
           get_prop r ''market_config''
             = finalLocalization (or_default (ai_country inputs) ''nigeria'')
                 (parsed e (ai_marketLocalization inputs))"
proof -
  from assms(7) have c: "(200 \<le> st \<and> st < 300) = True" by simp
  from assms(8) have b: "read_prop body ''integration_id'' = Inr (get_prop body ''integration_id'')"
    by (simp add: read_prop_def nullish_def)
  from assms(1-6) show ?thesis
    by (simp add: integrations_init_def integrations_precheck_def integrations_try_def Let_def
        c b JSON_parse_parses axios_post_def)
      (simp add: get_prop_def)
qed

text \<open>
  \<open>egypt\<close> is in none of the enumerated sets of the repository: not in the defaults
  table, not among the countries the node offers, not among the regions the validator
  supports. With no localization from the caller its effective localization is
  Nigeria's, currency NGN: a region default is injected for an unsupported country.
\<close>

theorem unlisted_country_gets_nigeria_defaults:
  "''egypt'' \<notin> fst ` set countryDefaults \<and>
   finalLocalization ''egypt'' (JObj []) = nigeria_defaults \<and>
   get_prop (finalLocalization ''egypt'' (JObj [])) ''currency'' = JStr ''NGN''"
proof -
  have a: "''egypt'' \<notin> fst ` set countryDefaults"
    by (simp add: countryDefaults_def)
  have b: "''egypt'' \<notin> set inherited_names"
    by (simp add: inherited_names_def object_prototype_functions_def)
  have "finalLocalization ''egypt'' (JObj [])
          = JObj (spread (JObj []) (spread nigeria_defaults []))"
    by (simp only: finalLocalization_def defaultLocalization_unsupported [OF a b])
  also have "\<dots> = JObj (spread (JObj []) (own_entries nigeria_defaults))"
    by (simp only: nigeria_fields)
  also have "\<dots> = JObj (own_entries nigeria_defaults)"
    by (simp add: spread_def put_all_def)
  also have "\<dots> = nigeria_defaults"
    by (simp add: nigeria_defaults_def)
  finally have c: "finalLocalization ''egypt'' (JObj []) = nigeria_defaults" .
  moreover have "get_prop nigeria_defaults ''currency'' = JStr ''NGN''"
    by (simp add: nigeria_defaults_def get_prop_def)
  ultimately show ?thesis using a by simp
qed

text \<open>
  C4, as the code has it. A country outside the defaults table (and not the name of
  something every object inherits) raises no error and is passed on unchanged as
  \<open>country\<close>, in the failure envelope as in the success envelope. Its region layer is
  Nigeria's defaults, the same layer an absent country gets: a key the caller supplies
  has the caller's value, every other key has Nigeria's default.
\<close>

theorem unsupported_country_uses_nigeria_defaults:
  assumes "country = or_default (ai_country inputs) ''nigeria''"
    and "country \<notin> fst ` set countryDefaults" and "country \<notin> set inherited_names"
  shows "defaultLocalization country = nigeria_defaults \<and>
         (distinct (map fst (own_entries localization)) \<longrightarrow>
            (\<forall>k. get_prop (finalLocalization country localization) k
                    = (if k \<in> fst ` set (own_entries localization)
                       then get_prop (JObj (own_entries localization)) k
                       else get_prop nigeria_defaults k))) \<and>
         (\<forall>r n. integrations_init e iid inputs = (Inr r, n) \<longrightarrow>
                get_prop r ''country'' = JStr country) \<and>
         (integrations_precheck inputs \<and>
          parses e (ai_integrationConfig inputs) \<and> parses e (ai_requestData inputs) \<and>
          parses e (ai_marketLocalization inputs) \<and> parses e (ai_complianceSettings inputs) \<and>
          (\<forall>req. env_backend e 0 req = Reply st body) \<and> 200 \<le> st \<and> st < 300 \<and>
          \<not> nullish body \<longrightarrow>
            (\<exists>r. integrations_init e iid inputs = (Inr r, 1) \<and>
                 get_prop r ''success'' = JBool True \<and>
                 get_prop r ''country'' = JStr country \<and>
                 get_prop r ''market_config''
                   = finalLocalization country (parsed e (ai_marketLocalization inputs))))"
proof -
  have d: "defaultLocalization country = nigeria_defaults"
    using assms(2,3) by (rule defaultLocalization_unsupported)
  have n: "get_prop (JObj (spread nigeria_defaults [])) k = get_prop nigeria_defaults k" for k
    by (simp only: nigeria_fields) (simp add: nigeria_defaults_def)
  have m: "distinct (map fst (own_entries localization)) \<longrightarrow>
            (\<forall>k. get_prop (finalLocalization country localization) k
                    = (if k \<in> fst ` set (own_entries localization)
                       then get_prop (JObj (own_entries localization)) k
                       else get_prop nigeria_defaults k))"
    by (simp add: finalLocalization_def d get_prop_spread n)
  have p: "\<forall>r n. integrations_init e iid inputs = (Inr r, n) \<longrightarrow>
                get_prop r ''country'' = JStr country"
    using integrations_country [of e iid inputs] assms(1) by blast
  have s: "integrations_precheck inputs \<and>
          parses e (ai_integrationConfig inputs) \<and> parses e (ai_requestData inputs) \<and>
          parses e (ai_marketLocalization inputs) \<and> parses e (ai_complianceSettings inputs) \<and>
          (\<forall>req. env_backend e 0 req = Reply st body) \<and> 200 \<le> st \<and> st < 300 \<and>
          \<not> nullish body \<longrightarrow>
            (\<exists>r. integrations_init e iid inputs = (Inr r, 1) \<and>
                 get_prop r ''success'' = JBool True \<and>
                 get_prop r ''country'' = JStr country \<and>
                 get_prop r ''market_config''
                   = finalLocalization country (parsed e (ai_marketLocalization inputs)))"
  proof (intro impI)
    assume h: "integrations_precheck inputs \<and>
          parses e (ai_integrationConfig inputs) \<and> parses e (ai_requestData inputs) \<and>
          parses e (ai_marketLocalization inputs) \<and> parses e (ai_complianceSettings inputs) \<and>
          (\<forall>req. env_backend e 0 req = Reply st body) \<and> 200 \<le> st \<and> st < 300 \<and>
          \<not> nullish body"
    then obtain r where r: "integrations_init e iid inputs = (Inr r, 1)"
      "get_prop r ''success'' = JBool True"
      "get_prop r ''market_config''
             = finalLocalization (or_default (ai_country inputs) ''nigeria'')
                 (parsed e (ai_marketLocalization inputs))"
      using integrations_success [of inputs e st body iid] by blast
    with p assms(1) show "\<exists>r. integrations_init e iid inputs = (Inr r, 1) \<and>
                 get_prop r ''success'' = JBool True \<and>
                 get_prop r ''country'' = JStr country \<and>
                 get_prop r ''market_config''
                   = finalLocalization country (parsed e (ai_marketLocalization inputs))"
      by blast
  qed
  show ?thesis
    by (intro conjI) (rule d m p s)+
qed

theorem unsupported_country_uses_nigeria_defaults_witness:
  \<open>''egypt'' = or_default (ai_country sample_integrations_inputs) ''nigeria'' \<and>
   ''egypt'' \<notin> fst ` set countryDefaults \<and> ''egypt'' \<notin> set inherited_names \<and>
   defaultLocalization ''egypt'' = nigeria_defaults \<and>
   get_prop (finalLocalization ''egypt'' (JObj [(''currency'', JStr ''EGP'')])) ''currency''
     = JStr ''EGP'' \<and>
   get_prop (finalLocalization ''egypt'' (JObj [(''currency'', JStr ''EGP'')])) ''timezone''
     = JStr ''Africa/Lagos'' \<and>
   (\<exists>r. integrations_init (sample_env (always (Reply 200 (JObj [])))) JUndefined
           (sample_integrations_inputs\<lparr>ai_marketLocalization := Some ''{"currency": "EGP"}''\<rparr>)
         = (Inr r, 1) \<and>
        get_prop r ''country'' = JStr ''egypt'' \<and>
        get_prop (get_prop r ''market_config'') ''currency'' = JStr ''EGP'' \<and>
        get_prop (get_prop r ''market_config'') ''timezone'' = JStr ''Africa/Lagos'')\<close>
proof -
  let ?loc = "JObj [(''currency'', JStr ''EGP'')]"
  let ?e = "sample_env (always (Reply 200 (JObj [])))"
  let ?i = \<open>sample_integrations_inputs\<lparr>ai_marketLocalization := Some ''{"currency": "EGP"}''\<rparr>\<close>
  have a0: "''egypt'' = or_default (ai_country sample_integrations_inputs) ''nigeria''"
    by (simp add: sample_integrations_inputs_def or_default_def)
  have a1: "''egypt'' = or_default (ai_country ?i) ''nigeria''"
    by (simp add: sample_integrations_inputs_def or_default_def)
  have a2: "''egypt'' \<notin> fst ` set countryDefaults"
    by (simp add: countryDefaults_def)
  have a3: "''egypt'' \<notin> set inherited_names"
    by (simp add: inherited_names_def object_prototype_functions_def)
  note T = unsupported_country_uses_nigeria_defaults
      [OF a1 a2 a3, where localization = ?loc and e = ?e and iid = JUndefined and st = 200
         and body = "JObj []"]
  have d: "distinct (map fst (own_entries ?loc))" by simp
  from T have g0: "defaultLocalization ''egypt'' = nigeria_defaults" by blast
  from T d have g: "get_prop (finalLocalization ''egypt'' ?loc) k
                    = (if k \<in> fst ` set (own_entries ?loc)
                       then get_prop (JObj (own_entries ?loc)) k
                       else get_prop nigeria_defaults k)" for k
    by blast
  have g1: "get_prop (finalLocalization ''egypt'' ?loc) ''currency'' = JStr ''EGP''"
    by (simp add: g) (simp add: get_prop_def)
  have g2: "get_prop (finalLocalization ''egypt'' ?loc) ''timezone'' = JStr ''Africa/Lagos''"
    by (simp add: g) (simp add: get_prop_def nigeria_defaults_def)
  have u: "uuidRegex_test sample_uuid" "sample_uuid \<noteq> []"
    by (simp_all add: sample_uuid_ok) (simp add: sample_uuid_def)
  have h1: "integrations_precheck ?i"
    using u
    by (simp add: integrations_precheck_def integrations_tenantId_def
        sample_integrations_inputs_def present_def of_opt_def Let_def)
  have h2: "parses ?e (ai_integrationConfig ?i)" "parses ?e (ai_requestData ?i)"
    "parses ?e (ai_marketLocalization ?i)" "parses ?e (ai_complianceSettings ?i)"
    by (simp_all add: sample_integrations_inputs_def parses_def sample_env_def sample_parse_def
        or_default_def)
  have h3: "parsed ?e (ai_marketLocalization ?i) = ?loc"
    by (simp add: parsed_def sample_env_def sample_parse_def or_default_def)
  have h4: "\<forall>req. env_backend ?e 0 req = Reply 200 (JObj [])"
    by (simp add: sample_env_def always_def)
  have h5: "200 \<le> (200::nat)" "(200::nat) < 300" "\<not> nullish (JObj [])"
    by (simp_all add: nullish_def)
  from T h1 h2 h4 h5 obtain r where
    r: "integrations_init ?e JUndefined ?i = (Inr r, 1)"
       "get_prop r ''country'' = JStr ''egypt''"
       "get_prop r ''market_config''
          = finalLocalization ''egypt'' (parsed ?e (ai_marketLocalization ?i))"
    by blast
  from r g1 g2 h3 have w: "\<exists>r. integrations_init ?e JUndefined ?i = (Inr r, 1) \<and>
        get_prop r ''country'' = JStr ''egypt'' \<and>
        get_prop (get_prop r ''market_config'') ''currency'' = JStr ''EGP'' \<and>
        get_prop (get_prop r ''market_config'') ''timezone'' = JStr ''Africa/Lagos''"
    by simp
  from a0 a2 a3 g0 g1 g2 w show ?thesis by (intro conjI)
qed

subsection \<open>Tenant resolution\<close>










subsection \<open>The query rewriter\<close>

lemma find_ci_Some:
  "find_ci w s = Some (pre, m, post) \<Longrightarrow>
   s = pre @ m @ post \<and> toLowerCase m = w \<and>
   (\<forall>i < length pre. toLowerCase (take (length w) (drop i s)) \<noteq> w)"
proof (induction s arbitrary: pre)
  case Nil
  then show ?case by (simp add: toLowerCase_def split: if_splits)
next
  case (Cons c cs)
  show ?case
  proof (cases "toLowerCase (take (length w) (c # cs)) = w")
    case True
    with Cons.prems have "pre = []" "m = take (length w) (c # cs)"
      "post = drop (length w) (c # cs)"
      by auto
    with True show ?thesis by simp
  next
    case False
    with Cons.prems obtain pre' where
      r: "find_ci w cs = Some (pre', m, post)" and p: "pre = c # pre'"
      by auto
    from Cons.IH [OF r] have ih: "cs = pre' @ m @ post" "toLowerCase m = w"
      "\<forall>i < length pre'. toLowerCase (take (length w) (drop i cs)) \<noteq> w"
      by auto
    have "toLowerCase (take (length w) (drop i (c # cs))) \<noteq> w" if "i < length pre" for i
    proof (cases i)
      case 0
      with False show ?thesis by simp
    next
      case (Suc j)
      with that p ih(3) show ?thesis by simp
    qed
    with ih p show ?thesis by simp
  qed
qed

lemma find_ci_None: "find_ci w s = None \<longleftrightarrow> \<not> includes_str (toLowerCase s) w"
proof (induction s)
  case Nil
  then show ?case by (simp add: includes_str_def toLowerCase_def)
next
  case (Cons c cs)
  have "startsWith (toLowerCase (c # cs)) w \<longleftrightarrow> toLowerCase (take (length w) (c # cs)) = w"
    by (simp only: startsWith_def toLowerCase_def take_map)
  with Cons show ?case
    by (auto simp add: includes_str_def toLowerCase_def)
qed

lemma getSubstitution_plain:
  "CHR ''$'' \<notin> set t \<Longrightarrow> getSubstitution m pre post t = t"
  by (induction m pre post t rule: getSubstitution.induct) auto

text \<open>
  Three queries the rewriter does not treat as a reader expects. \<open>DELETE FROM orders\<close>
  has a \<open>FROM\<close> and no \<open>WHERE\<close>, and is left without any tenant filter. In a query
  over the table \<open>elsewhere\<close> the predicate lands inside the table name, before the
  \<open>WHERE\<close> keyword. A tenant id that holds \<open>$&\<close> is not copied as it is: the matched
  text takes the place of \<open>$&\<close>.
\<close>

theorem rewriter_misplaces_or_omits_the_filter:
  "includes_str (toLowerCase ''DELETE FROM orders'') ''from'' \<and>
   \<not> includes_str (toLowerCase ''DELETE FROM orders'') ''where'' \<and>
   addTenantFilter ''DELETE FROM orders'' (Some ''t-1'') = ''DELETE FROM orders'' \<and>
   addTenantFilter ''SELECT * FROM elsewhere WHERE x = 1'' (Some ''t-1'')
     = ''SELECT * FROM elseWHERE '' @ tenant_predicate ''t-1'' @ '' AND WHERE x = 1'' \<and>
   addTenantFilter ''SELECT * FROM orders WHERE x = 1'' (Some ''a$&b'')
     = ''SELECT * FROM orders WHERE '' @ tenant_predicate ''aWHEREb'' @ '' AND x = 1''"
  by code_simp

text \<open>
  C3, as the code has it. Without a tenant id (absent or empty) the query is returned
  unchanged. Otherwise, when the query holds the letters \<open>where\<close> in any case, their
  leftmost occurrence is replaced by \<open>WHERE tenant_id = '<id>' AND\<close>, the text before
  and after it kept as it is; the id is copied literally when it holds no \<open>$\<close>, and
  expanded as a replacement template of \<open>String.replace\<close> otherwise. When the query
  holds no \<open>where\<close> but holds \<open>select\<close> and \<open>from\<close>, \<open> WHERE tenant_id = '<id>'\<close>
  is appended at the end of the query. Every other query is returned unchanged.
\<close>

theorem tenant_filter_placement:
  "(\<not> present tenantId \<longrightarrow> addTenantFilter sql tenantId = sql) \<and>
   (tid \<noteq> [] \<and> includes_str (toLowerCase sql) ''where'' \<longrightarrow>
      (\<exists>pre m post.
         sql = pre @ m @ post \<and> toLowerCase m = ''where'' \<and>
         (\<forall>i < length pre. toLowerCase (take 5 (drop i sql)) \<noteq> ''where'') \<and>
         addTenantFilter sql (Some tid)
           = pre @ getSubstitution m pre post (''WHERE '' @ tenant_predicate tid @ '' AND'') @ post \<and>
         (CHR ''$'' \<notin> set tid \<longrightarrow>
            addTenantFilter sql (Some tid)
              = pre @ ''WHERE '' @ tenant_predicate tid @ '' AND'' @ post))) \<and>
   (tid \<noteq> [] \<and> \<not> includes_str (toLowerCase sql) ''where'' \<and>
    includes_str (toLowerCase sql) ''select'' \<and> includes_str (toLowerCase sql) ''from'' \<longrightarrow>
      addTenantFilter sql (Some tid) = sql @ '' WHERE '' @ tenant_predicate tid) \<and>
   (tid \<noteq> [] \<and> \<not> includes_str (toLowerCase sql) ''where'' \<and>
    \<not> (includes_str (toLowerCase sql) ''select'' \<and> includes_str (toLowerCase sql) ''from'') \<longrightarrow>
      addTenantFilter sql (Some tid) = sql)"
proof -
  have c1: "\<not> present tenantId \<longrightarrow> addTenantFilter sql tenantId = sql"
    by (simp add: addTenantFilter_def)
  have c2: "tid \<noteq> [] \<and> includes_str (toLowerCase sql) ''where'' \<longrightarrow>
      (\<exists>pre m post.
         sql = pre @ m @ post \<and> toLowerCase m = ''where'' \<and>
         (\<forall>i < length pre. toLowerCase (take 5 (drop i sql)) \<noteq> ''where'') \<and>
         addTenantFilter sql (Some tid)
           = pre @ getSubstitution m pre post (''WHERE '' @ tenant_predicate tid @ '' AND'') @ post \<and>
         (CHR ''$'' \<notin> set tid \<longrightarrow>
            addTenantFilter sql (Some tid)
              = pre @ ''WHERE '' @ tenant_predicate tid @ '' AND'' @ post))"
  proof (intro impI)
    assume h: "tid \<noteq> [] \<and> includes_str (toLowerCase sql) ''where''"
    then have "find_ci ''where'' sql \<noteq> None"
      by (simp add: find_ci_None)
    then obtain pre m post where f: "find_ci ''where'' sql = Some (pre, m, post)"
      by auto
    from find_ci_Some [OF f]
    have d1: "sql = pre @ m @ post" and d2: "toLowerCase m = ''where''"
      and d3: "\<forall>i < length pre. toLowerCase (take (length ''where'') (drop i sql)) \<noteq> ''where''"
      by blast+
    have l: "length ''where'' = 5" by simp
    from d3 have d4: "\<forall>i < length pre. toLowerCase (take 5 (drop i sql)) \<noteq> ''where''"
      by (simp only: l)
    note d = d1 d2 d4
    from h f have r: "addTenantFilter sql (Some tid)
           = pre @ getSubstitution m pre post (''WHERE '' @ tenant_predicate tid @ '' AND'') @ post"
      by (simp add: addTenantFilter_def present_def or_default_def Let_def replace_ci_def
          tenant_predicate_def)
    have "getSubstitution m pre post (''WHERE '' @ tenant_predicate tid @ '' AND'')
            = ''WHERE '' @ tenant_predicate tid @ '' AND''"
      if "CHR ''$'' \<notin> set tid"
      using that by (intro getSubstitution_plain) (simp add: tenant_predicate_def apostrophe_def)
    with r have p: "CHR ''$'' \<notin> set tid \<longrightarrow>
            addTenantFilter sql (Some tid)
              = pre @ ''WHERE '' @ tenant_predicate tid @ '' AND'' @ post"
      by simp
    from d r p show "\<exists>pre m post.
         sql = pre @ m @ post \<and> toLowerCase m = ''where'' \<and>
         (\<forall>i < length pre. toLowerCase (take 5 (drop i sql)) \<noteq> ''where'') \<and>
         addTenantFilter sql (Some tid)
           = pre @ getSubstitution m pre post (''WHERE '' @ tenant_predicate tid @ '' AND'') @ post \<and>
         (CHR ''$'' \<notin> set tid \<longrightarrow>
            addTenantFilter sql (Some tid)
              = pre @ ''WHERE '' @ tenant_predicate tid @ '' AND'' @ post)"
      by blast
  qed
  have c3: "tid \<noteq> [] \<and> \<not> includes_str (toLowerCase sql) ''where'' \<and>
    includes_str (toLowerCase sql) ''select'' \<and> includes_str (toLowerCase sql) ''from'' \<longrightarrow>
      addTenantFilter sql (Some tid) = sql @ '' WHERE '' @ tenant_predicate tid"
    by (auto simp add: addTenantFilter_def present_def or_default_def Let_def includes_str_def
        tenant_predicate_def)
  have c4: "tid \<noteq> [] \<and> \<not> includes_str (toLowerCase sql) ''where'' \<and>
    \<not> (includes_str (toLowerCase sql) ''select'' \<and> includes_str (toLowerCase sql) ''from'') \<longrightarrow>
      addTenantFilter sql (Some tid) = sql"
    by (auto simp add: addTenantFilter_def present_def or_default_def Let_def includes_str_def
        split: option.splits)
  show ?thesis
    by (intro conjI) (rule c1 c2 c3 c4)+
qed


theorem tenant_filter_placement_witness:
  "\<not> present None \<and> addTenantFilter ''SELECT * FROM orders'' None = ''SELECT * FROM orders'' \<and>
   ''t-1'' \<noteq> [] \<and> includes_str (toLowerCase ''SELECT * FROM orders WHERE status = 1'') ''where'' \<and>
   CHR ''$'' \<notin> set ''t-1'' \<and>
   (\<exists>pre m post.
      ''SELECT * FROM orders WHERE status = 1'' = pre @ m @ post \<and> toLowerCase m = ''where'' \<and>
      addTenantFilter ''SELECT * FROM orders WHERE status = 1'' (Some ''t-1'')
        = pre @ ''WHERE '' @ tenant_predicate ''t-1'' @ '' AND'' @ post) \<and>
   \<not> includes_str (toLowerCase ''SELECT * FROM orders'') ''where'' \<and>
   includes_str (toLowerCase ''SELECT * FROM orders'') ''select'' \<and>
   includes_str (toLowerCase ''SELECT * FROM orders'') ''from'' \<and>
   addTenantFilter ''SELECT * FROM orders'' (Some ''t-1'')
     = ''SELECT * FROM orders WHERE '' @ tenant_predicate ''t-1'' \<and>
   \<not> includes_str (toLowerCase ''DELETE FROM orders'') ''select'' \<and>
   addTenantFilter ''DELETE FROM orders'' (Some ''t-1'') = ''DELETE FROM orders''"
proof -
  note T1 = tenant_filter_placement
      [where tenantId = None and sql = "''SELECT * FROM orders''" and tid = "''t-1''"]
  note T2 = tenant_filter_placement
      [where sql = "''SELECT * FROM orders WHERE status = 1''" and tid = "''t-1''"]
  note T3 = tenant_filter_placement
      [where sql = "''DELETE FROM orders''" and tid = "''t-1''"]
  have a1: "\<not> present None" by (simp add: present_def)
  have a2: "''t-1'' \<noteq> []" by simp
  have a3: "includes_str (toLowerCase ''SELECT * FROM orders WHERE status = 1'') ''where''"
    by code_simp
  have a4: "CHR ''$'' \<notin> set ''t-1''" by simp
  have a5: "\<not> includes_str (toLowerCase ''SELECT * FROM orders'') ''where''"
    by code_simp
  have a6: "includes_str (toLowerCase ''SELECT * FROM orders'') ''select''"
    by code_simp
  have a7: "includes_str (toLowerCase ''SELECT * FROM orders'') ''from''"
    by code_simp
  have a8: "\<not> includes_str (toLowerCase ''DELETE FROM orders'') ''select''"
    by code_simp
  have a9: "\<not> includes_str (toLowerCase ''DELETE FROM orders'') ''where''"
    by code_simp
  from T1 a1 have g1: "addTenantFilter ''SELECT * FROM orders'' None = ''SELECT * FROM orders''"
    by blast
  from T2 a2 a3 a4 have g2: "\<exists>pre m post.
      ''SELECT * FROM orders WHERE status = 1'' = pre @ m @ post \<and> toLowerCase m = ''where'' \<and>
      addTenantFilter ''SELECT * FROM orders WHERE status = 1'' (Some ''t-1'')
        = pre @ ''WHERE '' @ tenant_predicate ''t-1'' @ '' AND'' @ post"
    by blast
  from T1 a2 a5 a6 a7 have "addTenantFilter ''SELECT * FROM orders'' (Some ''t-1'')
     = ''SELECT * FROM orders'' @ '' WHERE '' @ tenant_predicate ''t-1''"
    by blast
  then have g3: "addTenantFilter ''SELECT * FROM orders'' (Some ''t-1'')
     = ''SELECT * FROM orders WHERE '' @ tenant_predicate ''t-1''"
    by simp
  from T3 a2 a8 a9 have g4: "addTenantFilter ''DELETE FROM orders'' (Some ''t-1'')
     = ''DELETE FROM orders''"
    by blast
  from a1 g1 a2 a3 a4 g2 a5 a6 a7 g3 a8 g4 show ?thesis by (intro conjI)
qed

subsection \<open>Writing properties keeps the list well ordered\<close>

lemma keys_insert_index:
  "fst ` set (insert_index n k v fs) = insert k (fst ` set fs)"
  by (induction fs) (auto split: option.splits)

lemma set_insert_index: "set (insert_index n k v fs) = insert (k, v) (set fs)"
  by (induction fs) (auto split: option.splits)

lemma distinct_insert_index:
  "k \<notin> fst ` set fs \<Longrightarrow> distinct (map fst fs) \<Longrightarrow>
   distinct (map fst (insert_index n k v fs))"
proof (induction fs)
  case Nil
  then show ?case by simp
next
  case (Cons p ps)
  then have "fst p \<notin> fst ` set (insert_index n k v ps)"
    by (auto simp add: keys_insert_index)
  with Cons show ?case
    by (auto split: option.splits)
qed

lemma js_before_index_trans:
  "array_index k = Some n \<Longrightarrow> array_index k' = Some m \<Longrightarrow> n < m \<Longrightarrow>
   js_before k' y \<Longrightarrow> js_before k y"
  by (auto simp add: js_before_def split: option.splits)

lemma sorted_insert_index:
  "array_index k = Some n \<Longrightarrow> sorted_wrt js_before (map fst fs) \<Longrightarrow>
   sorted_wrt js_before (map fst (insert_index n k v fs))"
proof (induction fs)
  case Nil
  then show ?case by simp
next
  case (Cons p ps)
  show ?case
  proof (cases "array_index (fst p)")
    case None
    with Cons.prems have "\<forall>y \<in> set (map fst ps). array_index y = None"
      by (auto simp add: js_before_def)
    with None Cons.prems show ?thesis
      by (auto simp add: js_before_def)
  next
    case (Some m)
    show ?thesis
    proof (cases "m \<le> n")
      case True
      with Some Cons show ?thesis
        by (auto simp add: keys_insert_index js_before_def)
    next
      case False
      then have "n < m" by simp
      with Some Cons.prems have "\<forall>y \<in> set (map fst ps). js_before k y"
        using js_before_index_trans [of k n "fst p" m] by auto
      with Some False Cons.prems show ?thesis
        by (auto simp add: js_before_def)
    qed
  qed
qed

lemma js_ordered_put: "js_ordered fs \<Longrightarrow> js_ordered (put k v fs)"
proof (cases "k \<in> fst ` set fs")
  case True
  assume "js_ordered fs"
  with True show ?thesis
    by (simp add: js_ordered_def put_def update_keys)
next
  case False
  assume o: "js_ordered fs"
  show ?thesis
  proof (cases "array_index k")
    case None
    with False o show ?thesis
      by (auto simp add: js_ordered_def put_def sorted_wrt_append js_before_def
          split: option.splits)
  next
    case (Some n)
    with False o show ?thesis
      by (simp add: js_ordered_def put_def distinct_insert_index sorted_insert_index)
  qed
qed

lemma insert_index_at_end:
  "array_index k = Some n \<Longrightarrow> \<forall>y \<in> fst ` set fs. js_before y k \<Longrightarrow>
   insert_index n k v fs = fs @ [(k, v)]"
  by (induction fs) (auto simp add: js_before_def split: option.splits)

lemma put_at_end:
  assumes "js_ordered (fs @ [(k, v)])"
  shows "put k v fs = fs @ [(k, v)]"
proof -
  from assms have n: "k \<notin> fst ` set fs" and b: "\<forall>y \<in> fst ` set fs. js_before y k"
    by (auto simp add: js_ordered_def sorted_wrt_append)
  show ?thesis
  proof (cases "array_index k")
    case None
    with n show ?thesis by (simp add: put_def)
  next
    case (Some i)
    with n b show ?thesis by (simp add: put_def insert_index_at_end)
  qed
qed

lemma put_all_rebuilds:
  "js_ordered (acc @ r) \<Longrightarrow> put_all r acc = acc @ r"
proof (induction r arbitrary: acc)
  case Nil
  then show ?case by (simp add: put_all_def)
next
  case (Cons p r)
  obtain k v where p: "p = (k, v)" by (cases p)
  from Cons.prems have "js_ordered ((acc @ [(k, v)]) @ r)"
    by (simp add: p)
  moreover from this have "js_ordered (acc @ [(k, v)])"
    by (auto simp add: js_ordered_def sorted_wrt_append)
  ultimately show ?case
    using Cons.IH [of "acc @ [(k, v)]"]
    by (simp add: put_all_def p put_at_end)
qed

subsection \<open>Sanitizing twice\<close>

lemma set_put: "set (put k v fs) \<subseteq> insert (k, v) (set fs)"
proof (cases "k \<in> fst ` set fs")
  case True
  have "set (AList.update k v fs) \<subseteq> insert (k, v) (set fs)"
    by (induction fs) auto
  with True show ?thesis by (simp add: put_def)
next
  case False
  then show ?thesis
    by (auto simp add: put_def set_insert_index split: option.splits)
qed

lemma sanitize_string_idem: "sanitize_string (sanitize_string s) = sanitize_string s"
  by (simp add: sanitize_string_def)

lemma can_be_prototype_sanitizeInput:
  "can_be_prototype (sanitizeInput v) = can_be_prototype v"
  by (cases v)
    (simp_all add: can_be_prototype_def object_value_def split: prod.splits)

lemma assign_inert:
  assumes "\<not> (k = ''__proto__'' \<and> can_be_prototype v)"
  shows "assign k v (own, [], ObjectPrototype)
           = ((if k = ''__proto__'' \<and> k \<notin> fst ` set own then own else put k v own),
              [], ObjectPrototype)"
  using assms
  by (cases v)
    (auto simp add: assign_def set_prototype_def reaches_setter_def can_be_prototype_def)

lemma assign_all_invariant:
  assumes "\<forall>p \<in> set es. \<not> (fst p = ''__proto__'' \<and> can_be_prototype (snd p))"
    and "js_ordered acc" and "''__proto__'' \<notin> fst ` set acc"
  shows "\<exists>r. assign_all es (acc, [], ObjectPrototype) = (r, [], ObjectPrototype) \<and>
             js_ordered r \<and>
             set r \<subseteq> set acc \<union> {p \<in> set es. fst p \<noteq> ''__proto__''}"
  using assms
proof (induction es arbitrary: acc)
  case Nil
  then show ?case by (simp add: assign_all_def)
next
  case (Cons p es)
  obtain k v where p: "p = (k, v)" by (cases p)
  have s: "assign_all (p # es) (acc, [], ObjectPrototype)
             = assign_all es (assign k v (acc, [], ObjectPrototype))"
    by (simp add: assign_all_def p)
  from Cons.prems(1) have i: "\<not> (k = ''__proto__'' \<and> can_be_prototype v)"
    by (simp add: p)
  show ?case
  proof (cases "k = ''__proto__''")
    case True
    with i Cons.prems(3)
    have a: "assign k v (acc, [], ObjectPrototype) = (acc, [], ObjectPrototype)"
      by (simp add: assign_inert)
    from Cons.prems(1) have e: "\<forall>p \<in> set es. \<not> (fst p = ''__proto__'' \<and> can_be_prototype (snd p))"
      by simp
    from Cons.IH [OF e Cons.prems(2,3)]
    obtain r where "assign_all es (acc, [], ObjectPrototype) = (r, [], ObjectPrototype)"
      and "js_ordered r" and "set r \<subseteq> set acc \<union> {p \<in> set es. fst p \<noteq> ''__proto__''}"
      by blast
    then show ?thesis
      unfolding s a by auto
  next
    case False
    with i have a: "assign k v (acc, [], ObjectPrototype) = (put k v acc, [], ObjectPrototype)"
      by (simp add: assign_inert)
    from Cons.prems(2) have o: "js_ordered (put k v acc)"
      by (rule js_ordered_put)
    have sub: "set (put k v acc) \<subseteq> insert (k, v) (set acc)"
      by (rule set_put)
    with False Cons.prems(3) have n: "''__proto__'' \<notin> fst ` set (put k v acc)"
      by force
    from Cons.prems(1) have e: "\<forall>p \<in> set es. \<not> (fst p = ''__proto__'' \<and> can_be_prototype (snd p))"
      by simp
    from Cons.IH [OF e o n]
    obtain r where r: "assign_all es (put k v acc, [], ObjectPrototype) = (r, [], ObjectPrototype)"
      and ro: "js_ordered r"
      and rs: "set r \<subseteq> set (put k v acc) \<union> {p \<in> set es. fst p \<noteq> ''__proto__''}"
      by blast
    from rs sub False have "set r \<subseteq> set acc \<union> {q \<in> set (p # es). fst q \<noteq> ''__proto__''}"
      by (auto simp add: p)
    with r ro show ?thesis
      unfolding s a by blast
  qed
qed

lemma set_sanitize_string: "set (sanitize_string s) \<subseteq> set s"
  by (simp add: sanitize_string_def)

lemma index_key_not_proto: "sanitize_string (string_of_nat i) \<noteq> ''__proto__''"
proof
  assume "sanitize_string (string_of_nat i) = ''__proto__''"
  then have "CHR ''_'' \<in> set (sanitize_string (string_of_nat i))"
    by simp
  with set_sanitize_string [of "string_of_nat i"] string_of_nat_digits [of i]
  have "CHR ''_'' \<in> set ''0123456789''"
    by blast
  then show False by simp
qed

lemma assign_all_is_put_all:
  "''__proto__'' \<notin> fst ` set es \<Longrightarrow>
   assign_all es (acc, ancestors, root) = (put_all es acc, ancestors, root)"
proof (induction es arbitrary: acc)
  case Nil
  then show ?case by (simp add: assign_all_def put_all_def)
next
  case (Cons p es)
  then show ?case
    by (cases p) (auto simp add: assign_all_def put_all_def assign_def)
qed

lemma sanitized_object_fixed:
  assumes "\<forall>p \<in> set es. sanitize_string (fst p) = fst p \<and> sanitizeInput (snd p) = snd p \<and>
                         \<not> (fst p = ''__proto__'' \<and> can_be_prototype (snd p))"
  shows "sanitizeInput (object_value (assign_all es empty_object))
           = object_value (assign_all es empty_object)"
proof -
  have o: "js_ordered ([] :: (string \<times> pval) list)" by (simp add: js_ordered_def)
  from assms have i: "\<forall>p \<in> set es. \<not> (fst p = ''__proto__'' \<and> can_be_prototype (snd p))"
    by blast
  from assign_all_invariant [OF i o]
  obtain r where r: "assign_all es empty_object = (r, [], ObjectPrototype)"
    and ord: "js_ordered r" and sub: "set r \<subseteq> {p \<in> set es. fst p \<noteq> ''__proto__''}"
    by (auto simp add: empty_object_def)
  from sub assms
  have "\<forall>p \<in> set r. sanitize_string (fst p) = fst p \<and> sanitizeInput (snd p) = snd p"
    by blast
  then have m: "map (\<lambda>(k, v). (sanitize_string k, sanitizeInput v)) r = r"
    by (intro map_idI) force
  from sub have "''__proto__'' \<notin> fst ` set r" by auto
  then have "assign_all r empty_object = (put_all r [], [], ObjectPrototype)"
    unfolding empty_object_def by (rule assign_all_is_put_all)
  moreover from ord have "put_all r [] = r"
    using put_all_rebuilds [of "[]" r] by simp
  ultimately show ?thesis
    by (simp add: r m object_value_def)
qed

text \<open>
  A second pass can undo the first. In the object that \<open>JSON.parse\<close> makes of
  \<^verbatim>\<open>{"__proto__": null, "__proto__;": 5}\<close> both names sanitize to \<open>__proto__\<close>. The first
  write reaches the prototype setter and leaves \<open>sanitized\<close> without a prototype, so the
  second write finds no setter and creates the own property \<open>__proto__\<close> with value 5.
  Sanitizing that result writes \<open>__proto__ = 5\<close> to a fresh object, whose setter ignores
  the number: the second pass returns the empty object. Likewise, an object given for
  \<open>__proto__\<close> becomes the prototype of the result, and a second pass, which copies own
  properties only, loses it.
\<close>

theorem sanitizeInput_is_not_idempotent:
  "sanitizeInput (PObj [(''__proto__'', PNull), (''__proto__;'', PNum ''5'')] [] ObjectPrototype)
     = PObj [(''__proto__'', PNum ''5'')] [] NullPrototype \<and>
   sanitizeInput
       (sanitizeInput
          (PObj [(''__proto__'', PNull), (''__proto__;'', PNum ''5'')] [] ObjectPrototype))
     = PObj [] [] ObjectPrototype \<and>
   sanitizeInput
       (sanitizeInput
          (PObj [(''__proto__'', PNull), (''__proto__;'', PNum ''5'')] [] ObjectPrototype))
     \<noteq> sanitizeInput
         (PObj [(''__proto__'', PNull), (''__proto__;'', PNum ''5'')] [] ObjectPrototype) \<and>
   sanitizeInput
       (PObj [(''__proto__'', PObj [(''x'', PNum ''1'')] [] ObjectPrototype), (''a'', PStr ''b'')]
          [] ObjectPrototype)
     = PObj [(''a'', PStr ''b'')] [[(''x'', PNum ''1'')]] ObjectPrototype \<and>
   sanitizeInput
       (sanitizeInput
          (PObj [(''__proto__'', PObj [(''x'', PNum ''1'')] [] ObjectPrototype),
                 (''a'', PStr ''b'')]
             [] ObjectPrototype))
     = PObj [(''a'', PStr ''b'')] [] ObjectPrototype"
  by code_simp

text \<open>
  C10, as the code has it. \<open>sanitizeInput\<close> is idempotent on every input in which no
  own property, at any depth, has a name that sanitizes to \<open>__proto__\<close> together with a
  value that is an object, an array or \<open>null\<close>: then no write changes a prototype, a
  string loses the characters of the blacklist once and for all, an object or an array
  becomes an object whose keys are clean, whose values are sanitized and whose
  properties are listed in the order a second pass writes them again, and every other
  value is returned as it is.
\<close>

theorem sanitizeInput_idempotent_on_safe_input:
  "proto_safe input \<Longrightarrow> sanitizeInput (sanitizeInput input) = sanitizeInput input"
proof (induction input rule: sanitizeInput.induct)
  case (1 s)
  then show ?case by (simp add: sanitize_string_idem)
next
  case (2 own ancestors root)
  have "\<forall>p \<in> set (map (\<lambda>(k, v). (sanitize_string k, sanitizeInput v)) own).
          sanitize_string (fst p) = fst p \<and> sanitizeInput (snd p) = snd p \<and>
          \<not> (fst p = ''__proto__'' \<and> can_be_prototype (snd p))"
  proof
    fix p
    assume "p \<in> set (map (\<lambda>(k, v). (sanitize_string k, sanitizeInput v)) own)"
    then obtain k v where kv: "(k, v) \<in> set own"
      and p: "p = (sanitize_string k, sanitizeInput v)"
      by auto
    from kv "2.prems" have s: "\<not> (sanitize_string k = ''__proto__'' \<and> can_be_prototype v)"
      and v: "proto_safe v"
      by (auto simp add: list_all_iff)
    from "2.IH" [OF kv refl v] have "sanitizeInput (sanitizeInput v) = sanitizeInput v" .
    with s show "sanitize_string (fst p) = fst p \<and> sanitizeInput (snd p) = snd p \<and>
          \<not> (fst p = ''__proto__'' \<and> can_be_prototype (snd p))"
      by (simp add: p sanitize_string_idem can_be_prototype_sanitizeInput)
  qed
  then show ?case
    using sanitized_object_fixed by simp
next
  case (3 xs)
  have "\<forall>p \<in> set (zip (map (sanitize_string \<circ> string_of_nat) [0 ..< length xs])
                       (map sanitizeInput xs)).
          sanitize_string (fst p) = fst p \<and> sanitizeInput (snd p) = snd p \<and>
          \<not> (fst p = ''__proto__'' \<and> can_be_prototype (snd p))"
  proof
    fix p
    assume "p \<in> set (zip (map (sanitize_string \<circ> string_of_nat) [0 ..< length xs])
                       (map sanitizeInput xs))"
    then have "(fst p, snd p) \<in> set (zip (map (sanitize_string \<circ> string_of_nat)
                                             [0 ..< length xs]) (map sanitizeInput xs))"
      by simp
    then have "fst p \<in> set (map (sanitize_string \<circ> string_of_nat) [0 ..< length xs])"
      and "snd p \<in> set (map sanitizeInput xs)"
      by (rule set_zip_leftD, rule set_zip_rightD)
    then show "sanitize_string (fst p) = fst p \<and> sanitizeInput (snd p) = snd p \<and>
          \<not> (fst p = ''__proto__'' \<and> can_be_prototype (snd p))"
      using "3.IH" "3.prems"
      by (auto simp add: sanitize_string_idem index_key_not_proto
          index_key_not_proto [symmetric] list_all_iff)
  qed
  then show ?case
    using sanitized_object_fixed by simp
qed simp_all

theorem sanitizeInput_idempotent_on_safe_input_witness:
  "proto_safe
     (PObj [(''b'', PArr [PStr ''<x>'', PNull]), (''(1)'', PStr ''a&b''), (''b;'', PNum ''7''),
            (''__proto__'', PStr ''<p>'')] [] ObjectPrototype) \<and>
   sanitizeInput
     (PObj [(''b'', PArr [PStr ''<x>'', PNull]), (''(1)'', PStr ''a&b''), (''b;'', PNum ''7''),
            (''__proto__'', PStr ''<p>'')] [] ObjectPrototype)
     = PObj [(''1'', PStr ''ab''), (''b'', PNum ''7'')] [] ObjectPrototype \<and>
   sanitizeInput (sanitizeInput
     (PObj [(''b'', PArr [PStr ''<x>'', PNull]), (''(1)'', PStr ''a&b''), (''b;'', PNum ''7''),
            (''__proto__'', PStr ''<p>'')] [] ObjectPrototype))
     = PObj [(''1'', PStr ''ab''), (''b'', PNum ''7'')] [] ObjectPrototype"
proof -
  let ?x = "PObj [(''b'', PArr [PStr ''<x>'', PNull]), (''(1)'', PStr ''a&b''),
                  (''b;'', PNum ''7''), (''__proto__'', PStr ''<p>'')] [] ObjectPrototype"
  have s: "proto_safe ?x"
    by code_simp
  have r: "sanitizeInput ?x = PObj [(''1'', PStr ''ab''), (''b'', PNum ''7'')] [] ObjectPrototype"
    by code_simp
  from s have i: "sanitizeInput (sanitizeInput ?x) = sanitizeInput ?x"
    by (rule sanitizeInput_idempotent_on_safe_input)
  from i r have "sanitizeInput (sanitizeInput ?x)
                   = PObj [(''1'', PStr ''ab''), (''b'', PNum ''7'')] [] ObjectPrototype"
    by (rule trans)
  with s r show ?thesis by (intro conjI)
qed

end
